theory Spec2Isabelle
  imports Complex_Main "HOL-Library.Sublist" "HOL-Library.AList" "HOL-Library.Log_Nat"
begin

section \<open>JavaScript strings and truthiness\<close>

text \<open>
  A string is kept as the bytes of its UTF-8 encoding. The operations the services use
  on strings are \<open>trim\<close>, \<open>toLowerCase\<close>, \<open>includes\<close>, \<open>length\<close> and \<open>charCodeAt\<close>. A
  string is falsy exactly when it is empty; a missing field (\<open>undefined\<close>) is \<open>None\<close>.
\<close>

text \<open>
  The white space and line terminators that \<open>trim\<close> strips: U+0009 to U+000D and
  U+0020 (one byte), U+00A0 (two bytes), and U+1680, U+2000 to U+200A, U+2028, U+2029,
  U+202F, U+205F, U+3000 and U+FEFF (three bytes).
\<close>

definition ws1 :: "char \<Rightarrow> bool" where
  "ws1 a = (a \<in> set [CHR 0x09, CHR 0x0A, CHR 0x0B, CHR 0x0C, CHR 0x0D, CHR 0x20])"

definition ws2 :: "char \<Rightarrow> char \<Rightarrow> bool" where
  "ws2 a b = (a = CHR 0xC2 \<and> b = CHR 0xA0)"

definition ws3 :: "char \<Rightarrow> char \<Rightarrow> char \<Rightarrow> bool" where
  "ws3 a b c =
     ((a, b, c) \<in> set
        [(CHR 0xE1, CHR 0x9A, CHR 0x80),
         (CHR 0xE2, CHR 0x80, CHR 0x80), (CHR 0xE2, CHR 0x80, CHR 0x81),
         (CHR 0xE2, CHR 0x80, CHR 0x82), (CHR 0xE2, CHR 0x80, CHR 0x83),
         (CHR 0xE2, CHR 0x80, CHR 0x84), (CHR 0xE2, CHR 0x80, CHR 0x85),
         (CHR 0xE2, CHR 0x80, CHR 0x86), (CHR 0xE2, CHR 0x80, CHR 0x87),
         (CHR 0xE2, CHR 0x80, CHR 0x88), (CHR 0xE2, CHR 0x80, CHR 0x89),
         (CHR 0xE2, CHR 0x80, CHR 0x8A), (CHR 0xE2, CHR 0x80, CHR 0xA8),
         (CHR 0xE2, CHR 0x80, CHR 0xA9), (CHR 0xE2, CHR 0x80, CHR 0xAF),
         (CHR 0xE2, CHR 0x81, CHR 0x9F), (CHR 0xE3, CHR 0x80, CHR 0x80),
         (CHR 0xEF, CHR 0xBB, CHR 0xBF)])"

fun trimStart :: "string \<Rightarrow> string" where
  "trimStart (a # b # c # cs) =
     (if ws1 a then trimStart (b # c # cs)
      else if ws2 a b then trimStart (c # cs)
      else if ws3 a b c then trimStart cs
      else a # b # c # cs)"
| "trimStart [a, b] = (if ws1 a then trimStart [b] else if ws2 a b then [] else [a, b])"
| "trimStart [a] = (if ws1 a then [] else [a])"
| "trimStart [] = []"

text \<open>\<open>trimEnd\<close>, on the reversed string.\<close>

fun trimEnd_rev :: "string \<Rightarrow> string" where
  "trimEnd_rev (c # b # a # cs) =
     (if ws1 c then trimEnd_rev (b # a # cs)
      else if ws2 b c then trimEnd_rev (a # cs)
      else if ws3 a b c then trimEnd_rev cs
      else c # b # a # cs)"
| "trimEnd_rev [c, b] = (if ws1 c then trimEnd_rev [b] else if ws2 b c then [] else [c, b])"
| "trimEnd_rev [c] = (if ws1 c then [] else [c])"
| "trimEnd_rev [] = []"

definition trim :: "string \<Rightarrow> string" where
  "trim s = rev (trimEnd_rev (rev (trimStart s)))"

text \<open>
  \<open>toLowerCase\<close>. It maps the capital letters of ASCII, those of the Latin-1
  supplement (U+00C0 to U+00DE but U+00D7, the bytes \<open>C3 80\<close> to \<open>C3 9E\<close> but \<open>C3 97\<close>),
  and the five other code points whose lower case has a letter of ASCII or Latin-1:
  U+0130 (to \<open>i\<close> and U+0307), U+0178 (to U+00FF), U+1E9E (to U+00DF), U+212A (to \<open>k\<close>) and
  U+212B (to U+00E5). Every other code point is left as it is: its lower case lies
  outside ASCII and Latin-1 as the code point itself does, so it never takes part in
  an occurrence of a text of ASCII and Latin-1 letters, which is all the services
  look for in a lower-cased string.
\<close>

definition lower_ascii :: "char \<Rightarrow> char" where
  "lower_ascii c =
     (let n = (of_char c :: nat) in if 65 \<le> n \<and> n \<le> 90 then char_of (n + 32) else c)"

definition latin1_upper :: "char \<Rightarrow> bool" where
  "latin1_upper d = (let n = (of_char d :: nat) in 128 \<le> n \<and> n \<le> 158 \<and> n \<noteq> 151)"

definition lower2 :: "char \<Rightarrow> char \<Rightarrow> string option" where
  "lower2 a b =
     (if a = CHR 0xC3 \<and> latin1_upper b then Some [a, char_of (of_char b + (32 :: nat))]
      else if a = CHR 0xC4 \<and> b = CHR 0xB0 then Some [CHR ''i'', CHR 0xCC, CHR 0x87]
      else if a = CHR 0xC5 \<and> b = CHR 0xB8 then Some [CHR 0xC3, CHR 0xBF]
      else None)"

definition lower3 :: "char \<Rightarrow> char \<Rightarrow> char \<Rightarrow> string option" where
  "lower3 a b c =
     (if a = CHR 0xE1 \<and> b = CHR 0xBA \<and> c = CHR 0x9E then Some [CHR 0xC3, CHR 0x9F]
      else if a = CHR 0xE2 \<and> b = CHR 0x84 \<and> c = CHR 0xAA then Some [CHR ''k'']
      else if a = CHR 0xE2 \<and> b = CHR 0x84 \<and> c = CHR 0xAB then Some [CHR 0xC3, CHR 0xA5]
      else None)"

fun toLowerCase :: "string \<Rightarrow> string" where
  "toLowerCase (a # b # c # cs) =
     (case lower3 a b c of
        Some l \<Rightarrow> l @ toLowerCase cs
      | None \<Rightarrow>
          (case lower2 a b of
             Some l \<Rightarrow> l @ toLowerCase (c # cs)
           | None \<Rightarrow> lower_ascii a # toLowerCase (b # c # cs)))"
| "toLowerCase [a, b] =
     (case lower2 a b of
        Some l \<Rightarrow> l
      | None \<Rightarrow> lower_ascii a # toLowerCase [b])"
| "toLowerCase [a] = [lower_ascii a]"
| "toLowerCase [] = []"

text \<open>\<open>s.includes(k)\<close>: \<open>k\<close> occurs in \<open>s\<close> as a contiguous run.\<close>

fun string_includes :: "string \<Rightarrow> string \<Rightarrow> bool" where
  "string_includes [] k = (k = [])"
| "string_includes (c # cs) k = (prefix k (c # cs) \<or> string_includes cs k)"

text \<open>
  The UTF-16 code units of a string, which \<open>length\<close> counts and \<open>charCodeAt\<close> reads: one
  unit for a sequence of one, two or three bytes, a surrogate pair for a sequence of
  four bytes. A byte that starts no sequence stands for U+FFFD.
\<close>

definition code_units :: "int \<Rightarrow> int list" where
  "code_units cp =
     (if cp < 65536 then [cp]
      else [55296 + (cp - 65536) div 1024, 56320 + (cp - 65536) mod 1024])"

text \<open>The decoder, with the number of bytes still due for the code point being read and
  the bits read so far.\<close>

fun utf16_from :: "nat \<Rightarrow> int \<Rightarrow> string \<Rightarrow> int list" where
  "utf16_from due bits [] = (if due = 0 then [] else [65533])"
| "utf16_from due bits (a # cs) =
     (if due = 0
      then (if of_char a < (128 :: int) then of_char a # utf16_from 0 0 cs
            else if 192 \<le> (of_char a :: int) \<and> of_char a < (224 :: int)
            then utf16_from 1 (of_char a - 192) cs
            else if 224 \<le> (of_char a :: int) \<and> of_char a < (240 :: int)
            then utf16_from 2 (of_char a - 224) cs
            else if 240 \<le> (of_char a :: int) then utf16_from 3 (of_char a - 240) cs
            else 65533 # utf16_from 0 0 cs)
      else if due = 1 then code_units (bits * 64 + (of_char a - 128)) @ utf16_from 0 0 cs
      else utf16_from (due - 1) (bits * 64 + (of_char a - 128)) cs)"

definition utf16 :: "string \<Rightarrow> int list" where
  "utf16 s = utf16_from 0 0 s"

text \<open>\<open>x || ''\<close> for a field that may be missing.\<close>

definition or_empty :: "string option \<Rightarrow> string" where
  "or_empty x = (case x of None \<Rightarrow> [] | Some s \<Rightarrow> s)"

text \<open>\<open>!x\<close> for a field that may be missing: missing or the empty string.\<close>

definition falsy :: "string option \<Rightarrow> bool" where
  "falsy x = (case x of None \<Rightarrow> True | Some s \<Rightarrow> s = [])"

text \<open>
  The names that every plain object inherits from \<open>Object.prototype\<close>. Reading one of
  them on an object that has no own property of that name gives the inherited function
  (for \<open>__proto__\<close>, the prototype itself), which is truthy.
\<close>

definition Object_prototype :: "string list" where
  "Object_prototype =
     [''constructor'', ''__defineGetter__'', ''__defineSetter__'', ''hasOwnProperty'',
      ''__lookupGetter__'', ''__lookupSetter__'', ''isPrototypeOf'', ''propertyIsEnumerable'',
      ''toString'', ''valueOf'', ''__proto__'', ''toLocaleString'']"

text \<open>
  The value of \<open>obj[k]\<close> for a plain object \<open>obj\<close> whose own properties are strings (an
  object read from JSON): the own value, the inherited one, or \<open>undefined\<close>.
\<close>

datatype property = Own string | Inherited string | Undefined

definition get_property :: "(string \<rightharpoonup> string) \<Rightarrow> string \<Rightarrow> property" where
  "get_property obj k =
     (case obj k of
        Some v \<Rightarrow> Own v
      | None \<Rightarrow> if k \<in> set Object_prototype then Inherited k else Undefined)"

definition truthy :: "property \<Rightarrow> bool" where
  "truthy p = (case p of Own v \<Rightarrow> v \<noteq> [] | Inherited k \<Rightarrow> True | Undefined \<Rightarrow> False)"

section \<open>The registry (registry.ts)\<close>

record tool =
  name :: "string option"
  description :: "string option"

text \<open>The public payload \<open>{ base_url, tools }\<close>.\<close>

record agent_public =
  base_url :: string
  tools :: "tool list"

text \<open>The record kept in \<open>inMemoryAgents\<close>: \<open>{ base_url, tools, secret_token, ttl }\<close>.\<close>

record mem_agent = agent_public +
  secret_token :: string
  ttl :: nat

text \<open>
  The shared store. The registry writes two families of keys, \<open>agent:<id>\<close> (the
  public payload as JSON) and \<open>secret:<id>\<close> (the token); the two prefixes keep them
  apart, so the store is two maps indexed by \<open><id>\<close>. Each key carries its value and
  its expiry deadline in milliseconds, if any. The commands are those of the store the
  registry calls: \<open>SET\<close> writes a value without expiry, \<open>EXPIRE\<close> sets the deadline of a
  present key to \<open>seconds\<close> from now, and a key whose deadline has passed is absent for
  \<open>EXISTS\<close>, \<open>GET\<close> and \<open>KEYS\<close>.
\<close>

record redis =
  dataKey :: "string \<rightharpoonup> agent_public \<times> nat option"
  secretKey :: "string \<rightharpoonup> string \<times> nat option"

definition live :: "nat \<Rightarrow> ('v \<times> nat option) option \<Rightarrow> 'v option" where
  "live now e =
     (case e of
        None \<Rightarrow> None
      | Some (v, None) \<Rightarrow> Some v
      | Some (v, Some deadline) \<Rightarrow> (if now < deadline then Some v else None))"

definition redis_set :: "'v \<Rightarrow> ('v \<times> nat option) option" where
  "redis_set v = Some (v, None)"

definition redis_expire :: "nat \<Rightarrow> nat \<Rightarrow> ('v \<times> nat option) option \<Rightarrow> ('v \<times> nat option) option" where
  "redis_expire now seconds e =
     (case live now e of
        None \<Rightarrow> e
      | Some v \<Rightarrow> Some (v, Some (now + seconds * 1000)))"

text \<open>
  The registry process: \<open>redisClient\<close> (the shared store when there is a client,
  \<open>None\<close> for \<open>null\<close>) and the object \<open>inMemoryAgents\<close>: its own properties, and
  the record that an assignment to \<open>__proto__\<close> has made its prototype, if any
  (\<open>None\<close> while the prototype is \<open>Object.prototype\<close>). An assignment
  \<open>obj['__proto__'] = v\<close> of an object \<open>v\<close> to a plain object creates no property: it
  replaces the prototype.
\<close>

record registry =
  redisClient :: "redis option"
  inMemoryAgents :: "string \<rightharpoonup> mem_agent"
  inMemoryProto :: "mem_agent option"

text \<open>The JSON body of \<open>POST /register\<close>; \<open>req_tools\<close> is \<open>None\<close> when
  \<open>tools\<close> is missing or not an array.\<close>

record register_body =
  req_agent_id :: "string option"
  req_base_url :: "string option"
  req_tools :: "tool list option"
  req_secret_token :: "string option"

text \<open>An HTTP response: the status code and the JSON body.\<close>

datatype 'b response = Response (status: nat) (body: 'b)

text \<open>
  \<open>app.post('/register')\<close>. \<open>HEARTBEAT_TTL\<close> is the configured number of seconds
  and \<open>now\<close> the clock in milliseconds (\<open>Date.now()\<close>).
\<close>

definition register :: "nat \<Rightarrow> nat \<Rightarrow> register_body \<Rightarrow> registry \<Rightarrow> string response \<times> registry" where
  "register HEARTBEAT_TTL now data s =
     (let agentId = trim (or_empty (req_agent_id data));
          baseUrl = trim (or_empty (req_base_url data));
          secretToken = trim (or_empty (req_secret_token data))
      in if agentId = [] \<or> baseUrl = [] \<or> secretToken = [] \<or> req_tools data = None
         then (Response 400 ''Dados de registro incompletos.'', s)
         else
           let tls = the (req_tools data) in
           (Response 200 (''Agente '' @ agentId @ '' registrado com sucesso.''),
            case redisClient s of
              Some r \<Rightarrow>
                s\<lparr>redisClient := Some
                  (r\<lparr>dataKey := (dataKey r)(agentId :=
                        redis_expire now HEARTBEAT_TTL
                          (redis_set \<lparr>base_url = baseUrl, tools = tls\<rparr>)),
                     secretKey := (secretKey r)(agentId :=
                        redis_expire now HEARTBEAT_TTL (redis_set secretToken))\<rparr>)\<rparr>
            | None \<Rightarrow>
                (let v = \<lparr>base_url = baseUrl, tools = tls, secret_token = secretToken,
                          ttl = now + HEARTBEAT_TTL * 1000\<rparr>
                 in if agentId = ''__proto__'' then s\<lparr>inMemoryProto := Some v\<rparr>
                    else s\<lparr>inMemoryAgents := (inMemoryAgents s)(agentId \<mapsto> v)\<rparr>)))"

text \<open>
  Whether \<open>inMemoryAgents[agentId]\<close> is truthy: an own property is (a record), the
  prototype read through \<open>__proto__\<close> is, and so is what the prototype chain gives: a
  field of the record that became the prototype (a string when it is not empty, the
  array of tools, the deadline when it is not 0) or a function of \<open>Object.prototype\<close>.
\<close>

definition inMemory_truthy :: "registry \<Rightarrow> string \<Rightarrow> bool" where
  "inMemory_truthy s agentId =
     (case inMemoryAgents s agentId of
        Some v \<Rightarrow> True
      | None \<Rightarrow>
          (case inMemoryProto s of
             Some p \<Rightarrow>
               if agentId = ''base_url'' then base_url p \<noteq> []
               else if agentId = ''tools'' then True
               else if agentId = ''secret_token'' then secret_token p \<noteq> []
               else if agentId = ''ttl'' then ttl p \<noteq> 0
               else agentId \<in> set Object_prototype
           | None \<Rightarrow> agentId \<in> set Object_prototype))"

text \<open>\<open>app.post('/deregister')\<close>; \<open>delete\<close> removes an own property and nothing else.\<close>

definition deregister :: "nat \<Rightarrow> string option \<Rightarrow> registry \<Rightarrow> string response \<times> registry" where
  "deregister now body_agent_id s =
     (let agentId = trim (or_empty body_agent_id)
      in if agentId = []
         then (Response 400 (''O '' @ [CHR 0x27] @ ''agent_id'' @ [CHR 0x27]
                 @ '' nao foi fornecido.''), s)
         else case redisClient s of
           Some r \<Rightarrow>
             (case live now (dataKey r agentId) of
                Some _ \<Rightarrow>
                  (Response 200 (''Agente '' @ agentId @ '' desregistrado com sucesso.''),
                   s\<lparr>redisClient := Some
                     (r\<lparr>dataKey := (dataKey r)(agentId := None),
                        secretKey := (secretKey r)(agentId := None)\<rparr>)\<rparr>)
              | None \<Rightarrow> (Response 404 (''Agente '' @ agentId @ '' nao encontrado.''), s))
         | None \<Rightarrow>
             if inMemory_truthy s agentId
             then (Response 200 ''desregistrado'',
                   s\<lparr>inMemoryAgents := (inMemoryAgents s)(agentId := None)\<rparr>)
             else (Response 404 ''nao encontrado'', s))"

text \<open>
  \<open>app.get('/list_agents')\<close>: the JSON of the object \<open>out\<close>, a mapping from agent id
  to \<open>{ base_url, tools }\<close>. With a client, \<open>out\<close> gets an entry for each live
  \<open>agent:*\<close> key (the store is taken to answer every command); without one, for each
  own property of \<open>inMemoryAgents\<close>. In both loops \<open>out['__proto__'] = ...\<close> replaces
  the prototype of \<open>out\<close> and adds no property, so that id is never in the JSON.
\<close>

definition list_agents :: "nat \<Rightarrow> registry \<Rightarrow> (string \<rightharpoonup> agent_public)" where
  "list_agents now s =
     (case redisClient s of
        Some r \<Rightarrow>
          (\<lambda>agentId.
             if agentId = ''__proto__'' then None
             else case live now (dataKey r agentId) of
                    None \<Rightarrow> None
                  | Some d \<Rightarrow> Some \<lparr>base_url = base_url d, tools = tools d\<rparr>)
      | None \<Rightarrow>
          (\<lambda>id.
             if id = ''__proto__'' then None
             else case inMemoryAgents s id of
                    None \<Rightarrow> None
                  | Some v \<Rightarrow> Some \<lparr>base_url = base_url v, tools = tools v\<rparr>))"

section \<open>The host agent (host_agent.ts)\<close>

text \<open>A tool of the discovery snapshot: the registered tool, with the two fields
  \<open>fetchToolsFromRegistry\<close> adds.\<close>

record dtool = tool +
  owner_agent_id :: string
  agent_execute_url :: string

text \<open>
  The host's two globals. \<open>discoveredAgentsData\<close> is an object; its own properties
  are kept as the list of its entries in the order \<open>Object.entries\<close> gives them
  (insertion order), with \<open>AList.update\<close> for the assignment
  \<open>agentData[agentId] = info\<close>, and \<open>discoveredAgentsProto\<close> is the entry that an
  assignment to \<open>__proto__\<close> has made its prototype, if any. The two fields that
  \<open>fetchToolsFromRegistry\<close> writes into each tool are also visible through
  \<open>discoveredAgentsData\<close>, where nothing reads them: the entries keep the tools as
  registered.
\<close>

record host =
  discoveredTools :: "dtool list"
  discoveredAgentsData :: "(string \<times> agent_public) list"
  discoveredAgentsProto :: "agent_public option"

text \<open>The outcome of \<open>GET /list_agents\<close>: the call throws (with a message), or it
  returns the entries of the registered object.\<close>

datatype listing = Unreachable string | Listed "(string \<times> agent_public) list"

datatype log =
    Discovered nat nat
  | RegistryFailed string
  | DeregistrationRequested string
  | DeregistrationFailed string

fun discover ::
  "(string \<times> agent_public) list \<Rightarrow> dtool list \<Rightarrow> (string \<times> agent_public) list
     \<Rightarrow> agent_public option
     \<Rightarrow> dtool list \<times> (string \<times> agent_public) list \<times> agent_public option" where
  "discover [] allTools agentData proto = (allTools, agentData, proto)"
| "discover ((agentId, info) # rest) allTools agentData proto =
     discover rest
       (allTools @ map (\<lambda>t. \<lparr>name = name t, description = description t,
                               owner_agent_id = agentId,
                               agent_execute_url = base_url info @ ''/execute''\<rparr>) (tools info))
       (if agentId = ''__proto__'' then agentData else AList.update agentId info agentData)
       (if agentId = ''__proto__'' then Some info else proto)"

text \<open>\<open>fetchToolsFromRegistry\<close>: the new globals and the line it logs.\<close>

definition fetchToolsFromRegistry :: "listing \<Rightarrow> host \<Rightarrow> host \<times> log" where
  "fetchToolsFromRegistry res s =
     (case res of
        Listed registered \<Rightarrow>
          (case discover registered [] [] None of
             (allTools, agentData, proto) \<Rightarrow>
               (\<lparr>discoveredTools = allTools, discoveredAgentsData = agentData,
                 discoveredAgentsProto = proto\<rparr>,
                Discovered (length allTools) (length agentData)))
      | Unreachable e \<Rightarrow> (s, RegistryFailed e))"

record decision =
  tool_to_use :: "string option"
  dec_owner_agent_id :: string
  dec_agent_execute_url :: string

definition aiKw :: "string list" where
  "aiKw = [''inteligencia artificial'', ''ia'', ''ai'', [CHR 0xC3, CHR 0xA9] @ ''tica'',
           ''etica'', ''modelo de ia'']"

definition bioKw :: "string list" where
  "bioKw = [''biologia'', ''ecologia'', ''biologo'']"

definition ai_tool :: "dtool \<Rightarrow> bool" where
  "ai_tool t = (string_includes (toLowerCase (or_empty (name t))) ''guia''
              \<or> string_includes (toLowerCase (or_empty (description t))) ''ia'')"

definition bio_tool :: "dtool \<Rightarrow> bool" where
  "bio_tool t = (string_includes (toLowerCase (or_empty (name t))) ''biolog''
               \<or> string_includes (toLowerCase (or_empty (description t))) ''biolog'')"

definition decide :: "dtool \<Rightarrow> decision" where
  "decide t = \<lparr>tool_to_use = name t, dec_owner_agent_id = owner_agent_id t,
               dec_agent_execute_url = agent_execute_url t\<rparr>"

definition heuristicRoute :: "string \<Rightarrow> dtool list \<Rightarrow> decision option" where
  "heuristicRoute query tls =
     (if query = [] \<or> length tls = 0 then None
      else
        let q = toLowerCase query in
        case (if list_ex (string_includes q) aiKw then find ai_tool tls else None) of
          Some t \<Rightarrow> Some (decide t)
        | None \<Rightarrow>
            (case (if list_ex (string_includes q) bioKw then find bio_tool tls else None) of
               Some t \<Rightarrow> Some (decide t)
             | None \<Rightarrow> None))"

definition isCapabilitiesQuery :: "string \<Rightarrow> bool" where
  "isCapabilitiesQuery text =
     (if text = [] then False
      else
        let t = toLowerCase (trim text) in
        list_ex (string_includes t)
          [''o que voce faz'', ''quais agentes'', ''ferramentas disponiveis'', ''capacidades'',
           ''o que pode''])"

text \<open>An entry of \<open>agents\<close>: \<open>{ agent_id, base_url, tools }\<close>, each tool cut down to
  its name and description.\<close>

record agent_view = agent_public +
  agent_id :: string

text \<open>A template literal prints a missing field as \<open>undefined\<close>.\<close>

definition template :: "string option \<Rightarrow> string" where
  "template x = (case x of None \<Rightarrow> ''undefined'' | Some s \<Rightarrow> s)"

definition tool_line :: "tool \<Rightarrow> string" where
  "tool_line t =
     ''   '' @ [CHR 0xE2, CHR 0x80, CHR 0xA2] @ '' '' @ template (name t) @ '': ''
       @ template (description t) @ [CHR 0x0A]"

definition agent_lines :: "agent_view \<Rightarrow> string" where
  "agent_lines a = ''- '' @ agent_id a @ [CHR 0x0A] @ concat (map tool_line (tools a))"

definition formatCapabilitiesResponse :: "host \<Rightarrow> string \<times> agent_view list" where
  "formatCapabilitiesResponse s =
     (let agents = map (\<lambda>(agentId, info).
                     \<lparr>base_url = base_url info,
                      tools = map (\<lambda>t. \<lparr>name = name t, description = description t\<rparr>) (tools info),
                      agent_id = agentId\<rparr>) (discoveredAgentsData s)
      in (''Posso coordenar os seguintes agentes e ferramentas:'' @ [CHR 0x0A]
            @ concat (map agent_lines agents),
          agents))"

text \<open>\<open>delegateToLLM\<close> is a stub that decides nothing.\<close>

definition delegateToLLM :: "string \<Rightarrow> decision option" where
  "delegateToLLM query = None"

text \<open>The envelope sent to a specialist.\<close>

record a2a_message =
  message_id :: string
  timestamp :: string
  sender_agent_id :: string
  receiver_agent_id :: string
  payload_type :: string
  payload_query :: string
  payload_uuid :: "string option"

text \<open>What a specialist answers on \<open>POST /execute\<close>.\<close>

record execute_result =
  answer :: string
  result :: string
  sources :: "string list"
  chosen_temperature :: "rat option"
  similarity :: rat

text \<open>The outcome of forwarding: the specialist's JSON, or a failure with the text the
  host prints (\<open>status data\<close> of an HTTP error, or the message of a transport error).\<close>

datatype forwarded = Answered execute_result | Failed string

text \<open>Every call the host makes while it serves a request, in order. The last argument
  of \<open>PostExecute\<close> is the value printed after \<open>Bearer\<close> in the \<open>Authorization\<close>
  header.\<close>

datatype call =
    GetListAgents
  | GetHealth string
  | PostDeregister string
  | PostExecute string a2a_message property
  | Log log

text \<open>
  What the outside world answers during one request: the registry's listing, whether
  a health URL answers within the timeout, whether the deregistration call fails (and
  with what message), what the specialist answers, and the identifier and the time
  stamp drawn for the message.
\<close>

record world =
  list_agents_reply :: listing
  health_ok :: "string \<Rightarrow> bool"
  deregister_error :: "string \<Rightarrow> string option"
  execute_reply :: "string \<Rightarrow> a2a_message \<Rightarrow> property \<Rightarrow> forwarded"
  uuidv4 :: string
  now_iso :: string

record config =
  SPECIALIST_AGENTS_SECRETS :: "string \<rightharpoonup> string"
  HOST_AGENT_ID :: string

datatype host_body =
    ErrorBody string
  | Capabilities string "agent_view list"
  | Routed string string "string option" "string list" "rat option" rat

text \<open>\<open>requestDeregistration\<close>: the call and the line logged after it.\<close>

definition requestDeregistration :: "world \<Rightarrow> string \<Rightarrow> call list" where
  "requestDeregistration w agentId =
     (case deregister_error w agentId of
        None \<Rightarrow> [PostDeregister agentId, Log (DeregistrationRequested agentId)]
      | Some e \<Rightarrow> [PostDeregister agentId, Log (DeregistrationFailed e)])"

text \<open>
  \<open>discoveredAgentsData[k]\<close>, as far as the handler uses it: \<open>None\<close> when the value is
  falsy, and otherwise the text \<open>agentInfo.base_url\<close> prints as in a template. Beside an
  own entry, the value can be the prototype (read through \<open>__proto__\<close>), a field of the
  entry that became the prototype, or a function of \<open>Object.prototype\<close>; only an entry
  has a \<open>base_url\<close>, the others print \<open>undefined\<close>.
\<close>

definition agent_base_url :: "host \<Rightarrow> string \<Rightarrow> string option" where
  "agent_base_url s k =
     (case map_of (discoveredAgentsData s) k of
        Some info \<Rightarrow> Some (base_url info)
      | None \<Rightarrow>
          (case discoveredAgentsProto s of
             Some p \<Rightarrow>
               if k = ''__proto__'' then Some (base_url p)
               else if k = ''base_url'' then (if base_url p = [] then None else Some ''undefined'')
               else if k = ''tools'' then Some ''undefined''
               else if k \<in> set Object_prototype then Some ''undefined''
               else None
           | None \<Rightarrow> if k \<in> set Object_prototype then Some ''undefined'' else None))"

text \<open>The part of \<open>app.post('/query')\<close> after a decision was taken: credential lookup,
  health probe, forwarding. \<open>SPECIALIST_AGENTS_SECRETS\<close> is a plain object read from
  JSON.\<close>

definition dispatch ::
  "config \<Rightarrow> world \<Rightarrow> host \<Rightarrow> string \<Rightarrow> string option \<Rightarrow> decision
     \<Rightarrow> host_body response \<times> call list" where
  "dispatch cfg w s userQuery userUuid dec =
     (let targetAgentId = dec_owner_agent_id dec;
          targetUrl = dec_agent_execute_url dec;
          secretToken = get_property (SPECIALIST_AGENTS_SECRETS cfg) targetAgentId
      in if \<not> truthy secretToken
         then (Response 500 (ErrorBody (''Erro de seguranca interno: token para o agente ''
                   @ targetAgentId @ '' nao encontrado.'')), [])
         else
           case agent_base_url s targetAgentId of
             None \<Rightarrow>
               (Response 500 (ErrorBody (''Dados do agente '' @ [CHR 0x27] @ targetAgentId
                   @ [CHR 0x27] @ '' nao encontrados.'')), [])
           | Some agentInfo_base_url \<Rightarrow>
               let healthUrl = agentInfo_base_url @ ''/health'' in
               if \<not> health_ok w healthUrl
               then
                 (Response 503 (ErrorBody (''O agente especialista '' @ [CHR 0x27] @ targetAgentId
                     @ [CHR 0x27] @ '' esta indisponivel no momento.'')),
                  GetHealth healthUrl
                    # (if targetAgentId \<noteq> [] then requestDeregistration w targetAgentId else []))
               else
                 let a2aMessage =
                       \<lparr>message_id = ''msg_'' @ uuidv4 w, timestamp = now_iso w,
                        sender_agent_id = HOST_AGENT_ID cfg, receiver_agent_id = targetAgentId,
                        payload_type = ''text_query'', payload_query = userQuery,
                        payload_uuid = userUuid\<rparr>
                 in (case execute_reply w targetUrl a2aMessage secretToken of
                       Answered r \<Rightarrow>
                         (Response 200
                            (Routed (if result r \<noteq> [] then result r else answer r) targetAgentId
                               (tool_to_use dec) (sources r) (chosen_temperature r) (similarity r)),
                          [GetHealth healthUrl, PostExecute targetUrl a2aMessage secretToken])
                     | Failed msg \<Rightarrow>
                         (Response 502
                            (ErrorBody (''Erro ao comunicar com o agente especialista: '' @ msg)),
                          [GetHealth healthUrl, PostExecute targetUrl a2aMessage secretToken])))"

definition explicacao :: string where
  "explicacao = ''Ol'' @ [CHR 0xC3, CHR 0xA1]
     @ ''! Sou o agente Host. Quando nao encontro um agente ideal, posso mostrar quem esta disponivel agora:''
     @ [CHR 0x0A, CHR 0x0A]"

text \<open>\<open>app.post('/query')\<close>: the response, the calls made, and the globals afterwards.\<close>

definition post_query ::
  "config \<Rightarrow> world \<Rightarrow> string option \<Rightarrow> string option \<Rightarrow> host
     \<Rightarrow> host_body response \<times> call list \<times> host" where
  "post_query cfg w body_query body_uuid s =
     (if falsy body_query
      then (Response 400 (ErrorBody (''A '' @ [CHR 0x27] @ ''query'' @ [CHR 0x27]
              @ '' nao pode estar vazia.'')), [], s)
      else
        let userQuery = or_empty body_query in
        case fetchToolsFromRegistry (list_agents_reply w) s of
          (s', line) \<Rightarrow>
            let calls = [GetListAgents, Log line] in
            if length (discoveredTools s') = 0
            then (Response 503 (ErrorBody ''Nenhum agente especialista disponivel no momento.''),
                  calls, s')
            else if isCapabilitiesQuery userQuery
            then (case formatCapabilitiesResponse s' of
                    (text, agents) \<Rightarrow> (Response 200 (Capabilities text agents), calls, s'))
            else
              (case (case delegateToLLM userQuery of
                       Some d \<Rightarrow> Some d
                     | None \<Rightarrow> heuristicRoute userQuery (discoveredTools s')) of
                 None \<Rightarrow>
                   (case formatCapabilitiesResponse s' of
                      (text, agents) \<Rightarrow>
                        (Response 200 (Capabilities (explicacao @ text) agents), calls, s'))
               | Some dec \<Rightarrow>
                   (case dispatch cfg w s' userQuery body_uuid dec of
                      (res, made) \<Rightarrow> (res, calls @ made, s'))))"

section \<open>The specialist agent (ai_guide_agent.ts)\<close>

text \<open>
  A number is a double; it is kept as the rational it stands for. An operation of the
  agent is the exact operation followed by the rounding to the nearest double, ties to
  the even significand (53 bits). The exponent is not bounded here: with vectors made
  of the lengths and character codes of strings, no value comes near the largest or the
  smallest double, and none is infinite or NaN.
\<close>

type_synonym double = rat

definition pow2 :: "int \<Rightarrow> rat" where
  "pow2 e = (if 0 \<le> e then 2 ^ nat e else 1 / 2 ^ nat (- e))"

text \<open>The exponent \<open>e\<close> with \<open>2 ^ e \<le> x < 2 ^ (e + 1)\<close>, for a positive \<open>x\<close>.\<close>

definition ilog2 :: "rat \<Rightarrow> int" where
  "ilog2 x =
     (if 1 \<le> x then bitlen \<lfloor>x\<rfloor> - 1 else - bitlen (\<lceil>1 / x\<rceil> - 1))"

definition round_half_even :: "rat \<Rightarrow> int" where
  "round_half_even y =
     (let f = \<lfloor>y\<rfloor>; r = y - of_int f
      in if r < 1 / 2 then f else if 1 / 2 < r then f + 1 else if even f then f else f + 1)"

text \<open>The double nearest to a rational.\<close>

definition fl :: "rat \<Rightarrow> double" where
  "fl x =
     (if x = 0 then 0
      else let e = ilog2 \<bar>x\<bar> - 52
           in of_int (round_half_even (x / pow2 e)) * pow2 e)"

text \<open>The integer square root of a number below \<open>2 ^ 106\<close>, bit by bit from the
  list of the powers of two below \<open>2 ^ 53\<close>.\<close>

fun isqrt_from :: "int \<Rightarrow> int list \<Rightarrow> int \<Rightarrow> int" where
  "isqrt_from n [] r = r"
| "isqrt_from n (p # ps) r = isqrt_from n ps (if (r + p) * (r + p) \<le> n then r + p else r)"

definition isqrt53 :: "int \<Rightarrow> int" where
  "isqrt53 n = isqrt_from n (map (\<lambda>b. 2 ^ b) (rev [0..<53])) 0"

text \<open>
  \<open>Math.sqrt\<close>: the double nearest to the square root. The argument is scaled by a
  power of four so that its root \<open>s\<close> has 53 bits, and the root is rounded by comparing
  the scaled argument with the square of \<open>s + 1/2\<close>.
\<close>

definition fl_sqrt :: "double \<Rightarrow> double" where
  "fl_sqrt x =
     (if x \<le> 0 then 0
      else
        let e = ilog2 x div 2 - 52;
            y = x / pow2 (2 * e);
            s = isqrt53 \<lfloor>y\<rfloor>;
            h = of_int (s * s + s) + 1 / 4
        in of_int (if y < h then s else if h < y then s + 1 else if even s then s else s + 1)
             * pow2 e)"

text \<open>
  \<open>encodeToVector(text, dim)\<close>: the loop over the code units from index \<open>i\<close>, and the
  function. With \<open>dim = 0\<close> the index \<open>i % dim\<close> is NaN and the assignment adds no
  element: the vector stays empty.
\<close>

fun encode_from :: "nat \<Rightarrow> nat \<Rightarrow> int list \<Rightarrow> double list \<Rightarrow> double list" where
  "encode_from dimension i [] vec = vec"
| "encode_from dimension i (u # us) vec =
     encode_from dimension (Suc i) us
       (if dimension = 0 then vec
        else vec[i mod dimension := fl (vec ! (i mod dimension) + of_int (u mod 10))])"

definition encodeToVector :: "string \<Rightarrow> nat \<Rightarrow> double list" where
  "encodeToVector txt dimension = encode_from dimension 0 (utf16 txt) (replicate dimension 0)"

text \<open>The two \<open>reduce\<close> loops of \<open>cosineSimilarity\<close>, from index \<open>i\<close> and with the sum
  so far; \<open>b[i] ?? 0\<close> is 0 beyond the end of \<open>b\<close>.\<close>

fun dot_from :: "double list \<Rightarrow> nat \<Rightarrow> double list \<Rightarrow> double \<Rightarrow> double" where
  "dot_from b i [] s = s"
| "dot_from b i (v # vs) s =
     dot_from b (Suc i) vs (fl (s + fl (v * (if i < length b then b ! i else 0))))"

fun sum_squares :: "double list \<Rightarrow> double \<Rightarrow> double" where
  "sum_squares [] s = s"
| "sum_squares (v # vs) s = sum_squares vs (fl (s + fl (v * v)))"

text \<open>\<open>x || 1\<close> for a number.\<close>

definition or_one :: "double \<Rightarrow> double" where
  "or_one x = (if x = 0 then 1 else x)"

definition cosineSimilarity :: "double list \<Rightarrow> double list \<Rightarrow> double" where
  "cosineSimilarity a b =
     (let dot = dot_from b 0 a 0;
          na = or_one (fl_sqrt (sum_squares a 0));
          nb = or_one (fl_sqrt (sum_squares b 0))
      in fl (dot / fl (na * nb)))"

text \<open>
  \<open>calcularSimilaridadeMaxima\<close>. The text is encoded with the default dimension, 128;
  \<open>documentos.map(encodeToVector)\<close> calls \<open>encodeToVector\<close> with each document and its
  index, so the document at index \<open>i\<close> is encoded with the dimension \<open>i\<close>.
\<close>

definition calcularSimilaridadeMaxima :: "string \<Rightarrow> string list \<Rightarrow> double" where
  "calcularSimilaridadeMaxima texto documentos =
     (if length documentos = 0 then 0
      else
        let vText = encodeToVector texto 128;
            docsVecs = map (\<lambda>(i, d). encodeToVector d i) (enumerate 0 documentos)
        in case map (\<lambda>dv. cosineSimilarity dv vText) docsVecs of
             [] \<Rightarrow> 0
           | x # xs \<Rightarrow> foldl max x xs)"

definition temps :: "double list" where
  "temps = [fl (3 / 10), fl (6 / 10), fl (9 / 10)]"

record candidate =
  c_text :: string
  isAnchor :: bool
  score :: double
  temp :: double

text \<open>The outcome of \<open>retrieveAndFormat\<close>: it throws, or it returns the formatted
  context, the source names and the raw documents.\<close>

datatype retrieval = RetrievalFailed string | Retrieved string "string list" "string list"

text \<open>
  What the agent's collaborators answer during one request: the retriever, and the
  model (\<open>None\<close> when the call throws; otherwise \<open>resp.content\<close>) for a context, a
  query, a temperature and the index of the call.
\<close>

record specialist_world =
  retrieveAndFormat :: "string \<Rightarrow> retrieval"
  invokeModelWithTemperature :: "string \<Rightarrow> string \<Rightarrow> double \<Rightarrow> nat \<Rightarrow> string option"

text \<open>The loop over \<open>temps\<close>, from index \<open>i\<close>: the candidates pushed, in order.\<close>

fun generate ::
  "specialist_world \<Rightarrow> string \<Rightarrow> string \<Rightarrow> string list \<Rightarrow> nat \<Rightarrow> double list
     \<Rightarrow> candidate list" where
  "generate w ragContext query rawDocs i [] = []"
| "generate w ragContext query rawDocs i (t # ts) =
     (case invokeModelWithTemperature w ragContext query t i of
        None \<Rightarrow> generate w ragContext query rawDocs (Suc i) ts
      | Some content \<Rightarrow>
          (let txt = (if content \<noteq> [] then content else ''[object Object]'');
               sc = calcularSimilaridadeMaxima txt rawDocs
           in \<lparr>c_text = txt, isAnchor = (sc \<ge> fl (35 / 100)), score = sc, temp = t\<rparr>
                # generate w ragContext query rawDocs (Suc i) ts))"

definition respostaPadrao :: string where
  "respostaPadrao = ''Nao encontrei material sobre este topico especifico nas minhas diretrizes.''"

text \<open>The callback of \<open>reduce\<close>.\<close>

definition better :: "candidate \<Rightarrow> candidate \<Rightarrow> candidate" where
  "better a b = (if score a > score b then a else b)"

text \<open>The selection: \<open>respostaFinal\<close>, \<open>bestTemp\<close> and \<open>bestScore\<close>.\<close>

definition select :: "candidate list \<Rightarrow> string \<times> double option \<times> double" where
  "select candidates =
     (case filter isAnchor candidates of
        [] \<Rightarrow> (respostaPadrao, None, 0)
      | a # anchored \<Rightarrow>
          (let best = foldl better a anchored
           in (c_text best, Some (temp best), score best)))"

text \<open>\<open>s.split('/').pop()\<close>: what follows the last slash.\<close>

definition last_segment :: "string \<Rightarrow> string" where
  "last_segment s = rev (takeWhile (\<lambda>c. c \<noteq> CHR ''/'') (rev s))"

fun join :: "string \<Rightarrow> string list \<Rightarrow> string" where
  "join sep [] = []"
| "join sep [x] = x"
| "join sep (x # y # ys) = x @ sep @ join sep (y # ys)"

definition fontesLine :: "string list \<Rightarrow> string" where
  "fontesLine sourceNames =
     (let displaySources = map last_segment (filter (\<lambda>s. s \<noteq> []) sourceNames)
      in if length displaySources \<noteq> 0 then ''Fontes: '' @ join '' e '' displaySources
         else ''Fontes: -'')"

datatype specialist_body = Refused string | Executed execute_result

text \<open>\<open>app.post('/execute')\<close>, given the \<open>Authorization\<close> header and
  \<open>payload.query\<close> of the body.\<close>

definition post_execute ::
  "string \<Rightarrow> specialist_world \<Rightarrow> string option \<Rightarrow> string option \<Rightarrow> specialist_body response" where
  "post_execute AGENT_SECRET_TOKEN w auth body_query =
     (if falsy auth \<or> auth \<noteq> Some (''Bearer '' @ AGENT_SECRET_TOKEN)
      then Response 403 (Refused ''Acesso nao autorizado.'')
      else if falsy body_query
      then Response 400 (Refused (''A '' @ [CHR 0x27] @ ''query'' @ [CHR 0x27]
             @ '' nao foi recebida.''))
      else
        let query = or_empty body_query in
        case retrieveAndFormat w query of
          RetrievalFailed e \<Rightarrow>
            Response 500 (Refused (''Erro interno do agente Guia de IA: '' @ e))
        | Retrieved ragContext sourceNames rawDocs \<Rightarrow>
            (case select (generate w ragContext query rawDocs 0 temps) of
               (chosen, bestTemp, bestScore) \<Rightarrow>
                 (let respostaFinal = chosen @ [CHR 0x0A, CHR 0x0A] @ fontesLine sourceNames
                  in Response 200
                       (Executed \<lparr>answer = respostaFinal, result = respostaFinal,
                                  sources = sourceNames, chosen_temperature = bestTemp,
                                  similarity = bestScore\<rparr>))))"

section \<open>Sample inputs and reference definitions\<close>

text \<open>
  Registrations, snapshots and answers of the outside world on which the results
  below are evaluated.
\<close>

definition bio_body :: register_body where
  "bio_body =
     \<lparr>req_agent_id = Some ''bio'', req_base_url = Some ''http://b'',
      req_tools = Some [\<lparr>name = Some ''bio-lookup'', description = Some ''biologia''\<rparr>],
      req_secret_token = Some ''s1''\<rparr>"

definition bio_body2 :: register_body where
  "bio_body2 = bio_body\<lparr>req_base_url := Some '' http://c ''\<rparr>"

definition mem0 :: registry where
  "mem0 = \<lparr>redisClient = None, inMemoryAgents = Map.empty, inMemoryProto = None\<rparr>"

definition redis0 :: registry where
  "redis0 = \<lparr>redisClient = Some \<lparr>dataKey = Map.empty, secretKey = Map.empty\<rparr>,
             inMemoryAgents = Map.empty, inMemoryProto = None\<rparr>"

definition empty_host :: host where
  "empty_host =
     \<lparr>discoveredTools = [], discoveredAgentsData = [], discoveredAgentsProto = None\<rparr>"

definition bio_listing :: listing where
  "bio_listing = Listed [(''bio'', \<lparr>base_url = ''http://b'',
      tools = [\<lparr>name = Some ''bio-lookup'', description = Some ''consulta de biologo''\<rparr>]\<rparr>)]"

definition bio_snapshot :: host where
  "bio_snapshot =
     \<lparr>discoveredTools = [\<lparr>name = Some ''bio-lookup'', description = Some ''consulta de biologo'',
          owner_agent_id = ''bio'', agent_execute_url = ''http://b/execute''\<rparr>],
      discoveredAgentsData = [(''bio'', \<lparr>base_url = ''http://b'',
          tools = [\<lparr>name = Some ''bio-lookup'', description = Some ''consulta de biologo''\<rparr>]\<rparr>)],
      discoveredAgentsProto = None\<rparr>"

definition dead_world :: "listing \<Rightarrow> world" where
  "dead_world l = \<lparr>list_agents_reply = l, health_ok = (\<lambda>url. False),
     deregister_error = (\<lambda>agentId. Some ''timeout''),
     execute_reply = (\<lambda>url msg token. Failed ''unreachable''),
     uuidv4 = ''0000'', now_iso = ''2026-01-01T00:00:00.000Z''\<rparr>"

definition bio_config :: config where
  "bio_config = \<lparr>SPECIALIST_AGENTS_SECRETS = [''bio'' \<mapsto> ''s1''], HOST_AGENT_ID = ''host-agent''\<rparr>"

definition no_secrets :: config where
  "no_secrets = \<lparr>SPECIALIST_AGENTS_SECRETS = Map.empty, HOST_AGENT_ID = ''host-agent''\<rparr>"

definition tie_world :: specialist_world where
  "tie_world =
     \<lparr>retrieveAndFormat = (\<lambda>q. Retrieved ''<RAG>ctx</RAG>'' [''docs/guia.pdf''] [''x'', ''y'']),
      invokeModelWithTemperature =
        (\<lambda>ctx q t i. Some (if i = 0 then ''a'' else if i = 1 then ''k'' else ''d''))\<rparr>"

definition no_docs_world :: specialist_world where
  "no_docs_world =
     \<lparr>retrieveAndFormat = (\<lambda>q. Retrieved ''<RAG>Nenhum contexto encontrado.</RAG>'' [] []),
      invokeModelWithTemperature = (\<lambda>ctx q t i. if i = 1 then None else Some ''fluent text'')\<rparr>"

definition proto_body :: register_body where
  "proto_body = bio_body\<lparr>req_agent_id := Some ''__proto__''\<rparr>"

definition proto_body2 :: register_body where
  "proto_body2 = proto_body\<lparr>req_base_url := Some ''http://c''\<rparr>"

definition constructor_body :: register_body where
  "constructor_body =
     \<lparr>req_agent_id = Some ''constructor'', req_base_url = Some ''http://c'',
      req_tools = Some [\<lparr>name = Some ''bio-lookup'', description = Some ''consulta de biologo''\<rparr>],
      req_secret_token = Some ''s2''\<rparr>"

definition constructor_listing :: listing where
  "constructor_listing = Listed [(''constructor'', \<lparr>base_url = ''http://c'',
      tools = [\<lparr>name = Some ''bio-lookup'', description = Some ''consulta de biologo''\<rparr>]\<rparr>)]"

definition constructor_snapshot :: host where
  "constructor_snapshot =
     \<lparr>discoveredTools = [\<lparr>name = Some ''bio-lookup'', description = Some ''consulta de biologo'',
          owner_agent_id = ''constructor'', agent_execute_url = ''http://c/execute''\<rparr>],
      discoveredAgentsData = [(''constructor'', \<lparr>base_url = ''http://c'',
          tools = [\<lparr>name = Some ''bio-lookup'', description = Some ''consulta de biologo''\<rparr>]\<rparr>)],
      discoveredAgentsProto = None\<rparr>"

definition live_world :: "listing \<Rightarrow> world" where
  "live_world l = \<lparr>list_agents_reply = l, health_ok = (\<lambda>url. True),
     deregister_error = (\<lambda>agentId. None),
     execute_reply = (\<lambda>url msg token.
       Answered \<lparr>answer = ''ok'', result = ''ok'', sources = [], chosen_temperature = None,
                 similarity = 0\<rparr>),
     uuidv4 = ''0000'', now_iso = ''2026-01-01T00:00:00.000Z''\<rparr>"

text \<open>
  The registry with every stored token blanked: what is left is all that two
  registries differing only in their tokens have in common.
\<close>

definition erase_secrets :: "registry \<Rightarrow> registry" where
  "erase_secrets s =
     s\<lparr>redisClient :=
         map_option
           (\<lambda>r. r\<lparr>secretKey := (\<lambda>id. map_option (\<lambda>(tok, d). ([], d)) (secretKey r id))\<rparr>)
           (redisClient s),
       inMemoryAgents := (\<lambda>id. map_option (\<lambda>v. v\<lparr>secret_token := []\<rparr>) (inMemoryAgents s id)),
       inMemoryProto := map_option (\<lambda>v. v\<lparr>secret_token := []\<rparr>) (inMemoryProto s)\<rparr>"

text \<open>
  What an accepted registration leaves in the store.
\<close>

definition stored :: "nat \<Rightarrow> nat \<Rightarrow> register_body \<Rightarrow> registry \<Rightarrow> registry" where
  "stored T now b s =
     (let agentId = trim (or_empty (req_agent_id b));
          pub = \<lparr>base_url = trim (or_empty (req_base_url b)), tools = the (req_tools b)\<rparr>;
          tok = trim (or_empty (req_secret_token b));
          deadline = now + T * 1000
      in case redisClient s of
           Some r \<Rightarrow>
             s\<lparr>redisClient := Some
               (r\<lparr>dataKey := (dataKey r)(agentId \<mapsto> (pub, Some deadline)),
                  secretKey := (secretKey r)(agentId \<mapsto> (tok, Some deadline))\<rparr>)\<rparr>
         | None \<Rightarrow>
             if agentId = ''__proto__''
             then s\<lparr>inMemoryProto :=
                     Some (agent_public.extend pub \<lparr>secret_token = tok, ttl = deadline\<rparr>)\<rparr>
             else s\<lparr>inMemoryAgents := (inMemoryAgents s)(agentId \<mapsto>
                     agent_public.extend pub \<lparr>secret_token = tok, ttl = deadline\<rparr>)\<rparr>)"

text \<open>The registry holds no record under the empty agent id.\<close>

definition ids_nonempty :: "registry \<Rightarrow> bool" where
  "ids_nonempty s =
     ((case redisClient s of None \<Rightarrow> True | Some r \<Rightarrow> dataKey r [] = None)
      \<and> inMemoryAgents s [] = None)"

text \<open>
  The router read as "the first keyword set that matches decides": the query is
  lower-cased, the two keyword sets are tried in order, and the first one that matches
  gives the first tool of the snapshot that passes its test, or nothing.
\<close>

definition route_first_matching_set :: "string \<Rightarrow> dtool list \<Rightarrow> decision option" where
  "route_first_matching_set query tls =
     (let q = toLowerCase query
      in if list_ex (string_includes q) aiKw then map_option decide (find ai_tool tls)
         else if list_ex (string_includes q) bioKw then map_option decide (find bio_tool tls)
         else None)"

text \<open>
  The first candidate, in the order of the temperatures, among the anchored candidates
  whose score no anchored candidate exceeds.
\<close>

definition earliest_highest :: "candidate list \<Rightarrow> candidate option" where
  "earliest_highest candidates =
     (let anchored = filter isAnchor candidates
      in find (\<lambda>c. \<forall>d \<in> set anchored. score d \<le> score c) anchored)"

section \<open>The registry: expiry, last write wins, secrets\<close>

lemma trim_samples:
  "trim ''bio'' = ''bio''" "trim ''http://b'' = ''http://b''" "trim ''s1'' = ''s1''"
  "trim '' http://c '' = ''http://c''" "trim ''http://c'' = ''http://c''"
  "trim ''other'' = ''other''" "trim ''__proto__'' = ''__proto__''"
  "trim ''constructor'' = ''constructor''" "trim ''s2'' = ''s2''"
  by code_simp+

lemma register_accepted:
  "status (fst (register T now b s)) = 200 \<Longrightarrow> snd (register T now b s) = stored T now b s"
  by (cases "redisClient s"; cases "req_tools b")
     (simp_all add: register_def stored_def Let_def live_def redis_expire_def
        redis_set_def agent_public.extend_def split: if_splits)

lemma register_status_any_store:
  "status (fst (register T now b s)) = status (fst (register T' now' b s'))"
  by (simp add: register_def Let_def split: option.splits)

text \<open>
  Where the registry does keep the last write: two accepted registrations of one id
  leave the store as the second alone would, and for every id but \<open>__proto__\<close> the
  listing then shows the second payload until the deadline.
\<close>

lemma stored_twice:
  "trim (or_empty (req_agent_id b1)) = trim (or_empty (req_agent_id b2)) \<Longrightarrow>
   stored T now2 b2 (stored T now1 b1 s) = stored T now2 b2 s"
  by (cases "redisClient s") (simp_all add: stored_def Let_def)

lemma list_agents_stored:
  "now < now2 + T * 1000 \<Longrightarrow> trim (or_empty (req_agent_id b)) \<noteq> ''__proto__'' \<Longrightarrow>
   list_agents now (stored T now2 b s) (trim (or_empty (req_agent_id b))) =
     Some \<lparr>base_url = trim (or_empty (req_base_url b)), tools = the (req_tools b)\<rparr>"
  by (cases "redisClient s")
     (simp_all add: stored_def Let_def list_agents_def live_def agent_public.extend_def)

text \<open>
  Agent ids are not empty: \<open>/register\<close> refuses an empty \<open>agent_id\<close>, so a registry
  that starts without the empty id never lists it.
\<close>

lemma register_ids_nonempty:
  "ids_nonempty s \<Longrightarrow> ids_nonempty (snd (register T now b s))"
  by (cases "redisClient s")
     (auto simp: ids_nonempty_def register_def Let_def split: option.splits)

lemma deregister_ids_nonempty:
  "ids_nonempty s \<Longrightarrow> ids_nonempty (snd (deregister now a s))"
  by (cases "redisClient s")
     (auto simp: ids_nonempty_def deregister_def Let_def split: option.splits)

lemma list_agents_ids_nonempty:
  "ids_nonempty s \<Longrightarrow> list_agents now s [] = None"
  by (cases "redisClient s")
     (auto simp: ids_nonempty_def list_agents_def live_def split: option.splits)

text \<open>
  With a client, a registration that is not renewed is gone from the listing once its
  deadline has passed: the shared store drops the key.
\<close>

lemma shared_store_expires:
  assumes "redisClient s \<noteq> None"
    and "status (fst (register T now0 b s)) = 200"
    and "now0 + T * 1000 \<le> now"
  shows "list_agents now (snd (register T now0 b s)) (trim (or_empty (req_agent_id b))) = None"
proof -
  from assms(1) obtain r where r: "redisClient s = Some r" by auto
  have "snd (register T now0 b s) = stored T now0 b s"
    using assms(2) by (rule register_accepted)
  then show ?thesis
    using r assms(3) by (simp add: stored_def Let_def list_agents_def live_def)
qed

text \<open>
  C3. An agent that is not registered again within the time to live must be absent from
  the listing afterwards, in both store modes. Without a client the deadline is written
  into the record as \<open>ttl\<close> and never read again: an agent registered at time 0 with a
  time to live of 60 seconds is still listed an hour later, where the same registration
  in the shared store has expired.
\<close>

theorem C3_in_memory_record_outlives_ttl:
  "list_agents 3600000 (snd (register 60 0 bio_body mem0)) ''bio''
     = Some \<lparr>base_url = ''http://b'',
             tools = [\<lparr>name = Some ''bio-lookup'', description = Some ''biologia''\<rparr>]\<rparr>
   \<and> map_option ttl (inMemoryAgents (snd (register 60 0 bio_body mem0)) ''bio'') = Some 60000
   \<and> list_agents 3600000 (snd (register 60 0 bio_body redis0)) ''bio'' = None"
  by (simp add: list_agents_def register_def bio_body_def mem0_def redis0_def trim_samples
        or_empty_def live_def redis_expire_def redis_set_def Let_def)

text \<open>
  C5. Registering an agent id twice must leave the second payload in the listing,
  for every agent id. For the id \<open>__proto__\<close> both registrations are answered 200, and
  the listing is empty afterwards, in both store modes: without a client the record
  becomes the prototype of \<open>inMemoryAgents\<close> and not a property of it, with a client
  the key is stored and \<open>/list_agents\<close> loses it when it builds its answer.
\<close>

theorem C5_proto_never_listed:
  "status (fst (register 60 0 proto_body mem0)) = 200
   \<and> status (fst (register 60 10000 proto_body2 (snd (register 60 0 proto_body mem0)))) = 200
   \<and> inMemoryAgents (snd (register 60 10000 proto_body2 (snd (register 60 0 proto_body mem0))))
       = Map.empty
   \<and> list_agents 20000 (snd (register 60 10000 proto_body2 (snd (register 60 0 proto_body mem0))))
       = Map.empty
   \<and> status (fst (register 60 0 proto_body redis0)) = 200
   \<and> status (fst (register 60 10000 proto_body2 (snd (register 60 0 proto_body redis0)))) = 200
   \<and> list_agents 20000 (snd (register 60 10000 proto_body2 (snd (register 60 0 proto_body redis0))))
       = Map.empty"
  by (simp add: list_agents_def register_def proto_body_def proto_body2_def bio_body_def mem0_def
        redis0_def trim_samples or_empty_def live_def redis_expire_def redis_set_def Let_def
        fun_eq_iff)

lemma list_agents_erase_secrets: "list_agents now (erase_secrets s) = list_agents now s"
  by (cases "redisClient s")
     (auto simp: list_agents_def erase_secrets_def fun_eq_iff split: option.splits)

text \<open>
  C8. The listing maps an agent id to a value of type \<open>agent_public\<close>, which has the
  fields \<open>base_url\<close> and \<open>tools\<close> and no other; and two registries that are equal once
  their tokens are blanked, that is, that differ in nothing but the values of their
  tokens, have the same listing at every time.
\<close>

theorem C8_listing_independent_of_secrets:
  "erase_secrets s1 = erase_secrets s2 \<Longrightarrow> list_agents now s1 = list_agents now s2"
  by (metis list_agents_erase_secrets)

text \<open>
  The same registration with two different tokens: two different registries, one listing.
\<close>

theorem C8_listing_secrets_witness:
  "erase_secrets (snd (register 60 0 bio_body mem0))
     = erase_secrets (snd (register 60 0 (bio_body\<lparr>req_secret_token := Some ''other''\<rparr>) mem0))
   \<and> snd (register 60 0 bio_body mem0)
       \<noteq> snd (register 60 0 (bio_body\<lparr>req_secret_token := Some ''other''\<rparr>) mem0)
   \<and> list_agents 5 (snd (register 60 0 bio_body mem0))
       = list_agents 5 (snd (register 60 0 (bio_body\<lparr>req_secret_token := Some ''other''\<rparr>) mem0))"
proof -
  have h: "erase_secrets (snd (register 60 0 bio_body mem0))
             = erase_secrets (snd (register 60 0 (bio_body\<lparr>req_secret_token := Some ''other''\<rparr>) mem0))"
    by (simp add: erase_secrets_def register_def bio_body_def mem0_def trim_samples
          or_empty_def fun_eq_iff)
  have d: "map_option secret_token (inMemoryAgents (snd (register 60 0 bio_body mem0)) ''bio'')
             \<noteq> map_option secret_token (inMemoryAgents
                   (snd (register 60 0 (bio_body\<lparr>req_secret_token := Some ''other''\<rparr>) mem0)) ''bio'')"
    by (simp add: register_def bio_body_def mem0_def trim_samples or_empty_def)
  then have n: "snd (register 60 0 bio_body mem0)
                  \<noteq> snd (register 60 0 (bio_body\<lparr>req_secret_token := Some ''other''\<rparr>) mem0)"
    by metis
  from C8_listing_independent_of_secrets [OF h, of 5] h n show ?thesis by blast
qed

section \<open>The host: refresh, routing, dispatch\<close>

text \<open>
  The handler, case by case.
\<close>

lemma fetch_bio: "fetchToolsFromRegistry bio_listing s = (bio_snapshot, Discovered 1 1)"
  by (simp add: fetchToolsFromRegistry_def bio_listing_def bio_snapshot_def)

lemma cap_q: "isCapabilitiesQuery ''o que voce faz''" by code_simp

lemma ncap_bio: "\<not> isCapabilitiesQuery ''biologia marinha''" by code_simp

lemma route_bio: "heuristicRoute ''biologia marinha'' (discoveredTools bio_snapshot) =
  Some \<lparr>tool_to_use = Some ''bio-lookup'', dec_owner_agent_id = ''bio'',
     dec_agent_execute_url = ''http://b/execute''\<rparr>" by code_simp

lemma isCapabilitiesQuery_nonempty: "isCapabilitiesQuery q \<Longrightarrow> q \<noteq> []"
  by (auto simp: isCapabilitiesQuery_def)

lemma heuristicRoute_Some_nonempty:
  "heuristicRoute q tls = Some d \<Longrightarrow> q \<noteq> [] \<and> tls \<noteq> []"
  by (auto simp: heuristicRoute_def split: if_splits)

lemma tool_eta: "map (\<lambda>t. \<lparr>name = name t, description = description t\<rparr>) (ts :: tool list) = ts"
  by (induction ts) auto

lemma format_agents:
  "map (\<lambda>a. (agent_id a, \<lparr>base_url = base_url a, tools = tools a\<rparr>)) (snd (formatCapabilitiesResponse s))
     = discoveredAgentsData s"
proof -
  have "(fst x, \<lparr>base_url = base_url (snd x), tools = tools (snd x)\<rparr>) = x"
    for x :: "string \<times> agent_public"
    by (cases x) simp
  then show ?thesis
    by (simp add: formatCapabilitiesResponse_def Let_def tool_eta comp_def case_prod_unfold)
qed

lemma format_bio:
  "formatCapabilitiesResponse bio_snapshot =
     (''Posso coordenar os seguintes agentes e ferramentas:'' @ [CHR 0x0A] @ ''- bio'' @ [CHR 0x0A]
        @ ''   '' @ [CHR 0xE2, CHR 0x80, CHR 0xA2] @ '' bio-lookup: consulta de biologo'' @ [CHR 0x0A],
      [\<lparr>base_url = ''http://b'',
        tools = [\<lparr>name = Some ''bio-lookup'', description = Some ''consulta de biologo''\<rparr>],
        agent_id = ''bio''\<rparr>])"
  by (simp add: formatCapabilitiesResponse_def bio_snapshot_def agent_lines_def tool_line_def
        template_def)

lemma post_query_listing:
  assumes "isCapabilitiesQuery q"
    and "fetchToolsFromRegistry (list_agents_reply w) s = (s', line)"
    and "discoveredTools s' \<noteq> []"
  shows "post_query cfg w (Some q) uuid s =
     (Response 200 (Capabilities (fst (formatCapabilitiesResponse s')) (snd (formatCapabilitiesResponse s'))),
      [GetListAgents, Log line], s')"
  using assms isCapabilitiesQuery_nonempty [OF assms(1)]
  by (simp add: post_query_def falsy_def or_empty_def Let_def split: prod.splits)

lemma post_query_routed:
  assumes "heuristicRoute q (discoveredTools s') = Some dec"
    and "fetchToolsFromRegistry (list_agents_reply w) s = (s', line)"
    and "\<not> isCapabilitiesQuery q"
  shows "post_query cfg w (Some q) uuid s =
     (fst (dispatch cfg w s' q uuid dec),
      [GetListAgents, Log line] @ snd (dispatch cfg w s' q uuid dec), s')"
  using assms heuristicRoute_Some_nonempty [OF assms(1)]
  by (simp add: post_query_def falsy_def or_empty_def Let_def delegateToLLM_def split: prod.splits)

lemma post_query_unrouted:
  assumes "heuristicRoute q (discoveredTools s') = None"
    and "fetchToolsFromRegistry (list_agents_reply w) s = (s', line)"
    and "\<not> isCapabilitiesQuery q" and "q \<noteq> []" and "discoveredTools s' \<noteq> []"
  shows "post_query cfg w (Some q) uuid s =
     (Response 200 (Capabilities (explicacao @ fst (formatCapabilitiesResponse s')) (snd (formatCapabilitiesResponse s'))),
      [GetListAgents, Log line], s')"
  using assms
  by (simp add: post_query_def falsy_def or_empty_def Let_def delegateToLLM_def split: prod.splits)

text \<open>
  The credential lookup. A name that the mapping lacks and \<open>Object.prototype\<close> does not
  have reads as \<open>undefined\<close>, and the handler answers 500 without a call; a token of
  the mapping that is not empty is truthy.
\<close>

lemma dispatch_no_credential:
  "\<not> truthy (get_property (SPECIALIST_AGENTS_SECRETS cfg) (dec_owner_agent_id dec)) \<Longrightarrow>
   dispatch cfg w s q uuid dec =
     (Response 500 (ErrorBody (''Erro de seguranca interno: token para o agente ''
         @ dec_owner_agent_id dec @ '' nao encontrado.'')), [])"
  by (simp add: dispatch_def Let_def)

lemma absent_plain_name:
  "obj k = None \<Longrightarrow> k \<notin> set Object_prototype \<Longrightarrow> \<not> truthy (get_property obj k)"
  by (simp add: get_property_def truthy_def)

lemma own_token_truthy: "\<not> falsy (obj k) \<Longrightarrow> truthy (get_property obj k)"
  by (cases "obj k") (simp_all add: falsy_def get_property_def truthy_def)

lemma own_entry_base_url:
  "map_of (discoveredAgentsData s) k = Some info \<Longrightarrow> agent_base_url s k = Some (base_url info)"
  by (simp add: agent_base_url_def)

lemma dispatch_unhealthy:
  assumes "\<not> falsy (SPECIALIST_AGENTS_SECRETS cfg (dec_owner_agent_id dec))"
    and "map_of (discoveredAgentsData s) (dec_owner_agent_id dec) = Some info"
    and "\<not> health_ok w (base_url info @ ''/health'')"
    and "dec_owner_agent_id dec \<noteq> []"
  shows "dispatch cfg w s q uuid dec =
     (Response 503 (ErrorBody (''O agente especialista '' @ [CHR 0x27] @ dec_owner_agent_id dec
         @ [CHR 0x27] @ '' esta indisponivel no momento.'')),
      GetHealth (base_url info @ ''/health'') # requestDeregistration w (dec_owner_agent_id dec))"
  using own_token_truthy [of "SPECIALIST_AGENTS_SECRETS cfg" "dec_owner_agent_id dec", OF assms(1)]
    own_entry_base_url [OF assms(2)] assms(3,4)
  by (simp add: dispatch_def Let_def)

text \<open>
  A routed query whose owner has no entry in the credential mapping, and whose name is
  not one that \<open>Object.prototype\<close> has, is answered 500 with a message that names the
  agent; the only calls made are the refresh and its log line.
\<close>

lemma missing_credential_plain_name:
  assumes "heuristicRoute q (discoveredTools (fst (fetchToolsFromRegistry (list_agents_reply w) s))) = Some dec"
    and "\<not> isCapabilitiesQuery q"
    and "SPECIALIST_AGENTS_SECRETS cfg (dec_owner_agent_id dec) = None"
    and "dec_owner_agent_id dec \<notin> set Object_prototype"
  shows "fst (post_query cfg w (Some q) uuid s) =
           Response 500 (ErrorBody (''Erro de seguranca interno: token para o agente ''
             @ dec_owner_agent_id dec @ '' nao encontrado.''))
         \<and> fst (snd (post_query cfg w (Some q) uuid s)) =
             [GetListAgents, Log (snd (fetchToolsFromRegistry (list_agents_reply w) s))]"
proof -
  obtain s' line where f: "fetchToolsFromRegistry (list_agents_reply w) s = (s', line)"
    by (cases "fetchToolsFromRegistry (list_agents_reply w) s")
  from assms(1) f have r: "heuristicRoute q (discoveredTools s') = Some dec" by simp
  have n: "\<not> truthy (get_property (SPECIALIST_AGENTS_SECRETS cfg) (dec_owner_agent_id dec))"
    using assms(3,4) by (rule absent_plain_name)
  show ?thesis
    unfolding post_query_routed [OF r f assms(2)] dispatch_no_credential [OF n]
    using f by simp
qed

lemma no_keyword_in_empty:
  "\<not> list_ex (string_includes []) aiKw" "\<not> list_ex (string_includes []) bioKw"
  by (simp_all add: aiKw_def bioKw_def)

lemma find_None_list_ex: "(find P xs = None) = (\<not> list_ex P xs)"
  by (auto simp: find_None_iff list_ex_iff)

text \<open>
  C2, as stated, fails when the refreshed snapshot has no tool: the handler answers 503
  before it looks at the keywords, also for \<open>o que voce faz\<close>.
\<close>

theorem C2_empty_snapshot_counterexample: "isCapabilitiesQuery ''o que voce faz''
  \<and> fst (post_query bio_config (dead_world (Listed [])) (Some ''o que voce faz'') None empty_host)
     = Response 503 (ErrorBody ''Nenhum agente especialista disponivel no momento.'')"
  using cap_q
  by (simp add: post_query_def falsy_def fetchToolsFromRegistry_def dead_world_def empty_host_def)

text \<open>
  C2, amended. For a query that matches the capabilities keywords, the handler answers
  200 with the listing of every discovered agent (its id, its base URL and its tools)
  whenever the snapshot has a tool after the refresh; when it has none, the handler
  answers 503.
\<close>

theorem C2_capabilities_query_after_refresh:
  assumes "isCapabilitiesQuery q"
  shows "(let s' = fst (fetchToolsFromRegistry (list_agents_reply w) s)
          in fst (post_query cfg w (Some q) uuid s) =
               (if discoveredTools s' = []
                then Response 503 (ErrorBody ''Nenhum agente especialista disponivel no momento.'')
                else Response 200 (Capabilities (fst (formatCapabilitiesResponse s'))
                                     (snd (formatCapabilitiesResponse s'))))
             \<and> map (\<lambda>a. (agent_id a, \<lparr>base_url = base_url a, tools = tools a\<rparr>))
                   (snd (formatCapabilitiesResponse s')) = discoveredAgentsData s')"
proof -
  obtain s' line where f: "fetchToolsFromRegistry (list_agents_reply w) s = (s', line)"
    by (cases "fetchToolsFromRegistry (list_agents_reply w) s")
  have ne: "q \<noteq> []" using assms by (rule isCapabilitiesQuery_nonempty)
  show ?thesis
  proof (cases "discoveredTools s' = []")
    case True
    then have "fst (post_query cfg w (Some q) uuid s) =
                 Response 503 (ErrorBody ''Nenhum agente especialista disponivel no momento.'')"
      using f ne by (simp add: post_query_def falsy_def or_empty_def Let_def)
    then show ?thesis using True f by (simp add: format_agents)
  next
    case False
    then show ?thesis
      using post_query_listing [OF assms f False] f by (simp add: format_agents)
  qed
qed

text \<open>
  A capabilities query against a registry that lists one agent.
\<close>

theorem C2_capabilities_query_witness:
  "isCapabilitiesQuery ''O que voce faz?''
   \<and> fst (post_query bio_config (dead_world bio_listing) (Some ''O que voce faz?'') None empty_host)
     = Response 200 (Capabilities
         (''Posso coordenar os seguintes agentes e ferramentas:'' @ [CHR 0x0A] @ ''- bio'' @ [CHR 0x0A]
            @ ''   '' @ [CHR 0xE2, CHR 0x80, CHR 0xA2] @ '' bio-lookup: consulta de biologo'' @ [CHR 0x0A])
         [\<lparr>base_url = ''http://b'',
           tools = [\<lparr>name = Some ''bio-lookup'', description = Some ''consulta de biologo''\<rparr>],
           agent_id = ''bio''\<rparr>])"
proof -
  have h: "isCapabilitiesQuery ''O que voce faz?''" by code_simp
  have f: "fst (fetchToolsFromRegistry (list_agents_reply (dead_world bio_listing)) empty_host)
             = bio_snapshot"
    by (simp add: dead_world_def fetch_bio)
  have t: "discoveredTools bio_snapshot \<noteq> []" by (simp add: bio_snapshot_def)
  from C2_capabilities_query_after_refresh [OF h, of "dead_world bio_listing" empty_host bio_config None]
  have "fst (post_query bio_config (dead_world bio_listing) (Some ''O que voce faz?'') None empty_host)
          = Response 200 (Capabilities (fst (formatCapabilitiesResponse bio_snapshot))
                            (snd (formatCapabilitiesResponse bio_snapshot)))"
    unfolding Let_def f using t by simp
  then show ?thesis using h by (simp add: format_bio)
qed

text \<open>
  C6. When the registry cannot be reached, \<open>fetchToolsFromRegistry\<close> returns the
  globals as they were and one warning; the handler of \<open>/query\<close> leaves them as they
  were too, and what it does first is the call to the registry and that warning.
\<close>

theorem C6_refresh_keeps_snapshot:
  assumes "list_agents_reply w = Unreachable e"
  shows "fetchToolsFromRegistry (list_agents_reply w) s = (s, RegistryFailed e)
         \<and> snd (snd (post_query cfg w body_query uuid s)) = s
         \<and> (\<not> falsy body_query \<longrightarrow>
               take 2 (fst (snd (post_query cfg w body_query uuid s)))
                 = [GetListAgents, Log (RegistryFailed e)])"
  using assms
  by (simp add: fetchToolsFromRegistry_def post_query_def Let_def split: prod.splits option.splits)

text \<open>
  A query while the registry refuses the connection: the snapshot held before is kept.
\<close>

theorem C6_refresh_witness:
  "list_agents_reply (dead_world (Unreachable ''ECONNREFUSED'')) = Unreachable ''ECONNREFUSED''
   \<and> fetchToolsFromRegistry (Unreachable ''ECONNREFUSED'') bio_snapshot
       = (bio_snapshot, RegistryFailed ''ECONNREFUSED'')
   \<and> snd (snd (post_query bio_config (dead_world (Unreachable ''ECONNREFUSED''))
         (Some ''biologia marinha'') None bio_snapshot)) = bio_snapshot
   \<and> take 2 (fst (snd (post_query bio_config (dead_world (Unreachable ''ECONNREFUSED''))
         (Some ''biologia marinha'') None bio_snapshot)))
       = [GetListAgents, Log (RegistryFailed ''ECONNREFUSED'')]"
proof -
  have h: "list_agents_reply (dead_world (Unreachable ''ECONNREFUSED'')) = Unreachable ''ECONNREFUSED''"
    by (simp add: dead_world_def)
  have q: "\<not> falsy (Some ''biologia marinha'')" by (simp add: falsy_def)
  from C6_refresh_keeps_snapshot [OF h, of bio_snapshot bio_config "Some ''biologia marinha''" None]
    h q
  show ?thesis by simp
qed

lemma fetch_constructor:
  "fetchToolsFromRegistry constructor_listing s = (constructor_snapshot, Discovered 1 1)"
  by (simp add: fetchToolsFromRegistry_def constructor_listing_def constructor_snapshot_def)

lemma route_constructor:
  "heuristicRoute ''biologia marinha'' (discoveredTools constructor_snapshot) =
     Some \<lparr>tool_to_use = Some ''bio-lookup'', dec_owner_agent_id = ''constructor'',
           dec_agent_execute_url = ''http://c/execute''\<rparr>"
  by code_simp

lemma constructor_inherited:
  "get_property (SPECIALIST_AGENTS_SECRETS no_secrets) ''constructor'' = Inherited ''constructor''"
  by (simp add: get_property_def no_secrets_def Object_prototype_def)

text \<open>
  C9. A routed query whose owner has no entry in the credential mapping must be
  answered 500, with no probe and no forwarding. The lookup
  \<open>SPECIALIST_AGENTS_SECRETS[targetAgentId]\<close> also finds what a plain object inherits:
  the registry accepts and lists an agent whose id is \<open>constructor\<close>, the host routes a
  biology query to it, and with an empty credential mapping the lookup gives the
  inherited function, which is truthy. The handler probes the agent and forwards the
  message to it, with that function printed as the bearer token, and answers 200.
\<close>

theorem C9_inherited_name_is_forwarded:
  "status (fst (register 60 0 constructor_body mem0)) = 200
   \<and> list_agents 5 (snd (register 60 0 constructor_body mem0)) ''constructor''
       = Some \<lparr>base_url = ''http://c'',
               tools = [\<lparr>name = Some ''bio-lookup'', description = Some ''consulta de biologo''\<rparr>]\<rparr>
   \<and> SPECIALIST_AGENTS_SECRETS no_secrets ''constructor'' = None
   \<and> post_query no_secrets (live_world constructor_listing) (Some ''biologia marinha'') None empty_host
       = (Response 200 (Routed ''ok'' ''constructor'' (Some ''bio-lookup'') [] None 0),
          [GetListAgents, Log (Discovered 1 1), GetHealth ''http://c/health'',
           PostExecute ''http://c/execute''
             \<lparr>message_id = ''msg_0000'', timestamp = ''2026-01-01T00:00:00.000Z'',
              sender_agent_id = ''host-agent'', receiver_agent_id = ''constructor'',
              payload_type = ''text_query'', payload_query = ''biologia marinha'',
              payload_uuid = None\<rparr>
             (Inherited ''constructor'')],
          constructor_snapshot)"
proof -
  have a: "status (fst (register 60 0 constructor_body mem0)) = 200"
    by (simp add: register_def constructor_body_def mem0_def trim_samples or_empty_def)
  have b: "list_agents 5 (snd (register 60 0 constructor_body mem0)) ''constructor''
       = Some \<lparr>base_url = ''http://c'',
               tools = [\<lparr>name = Some ''bio-lookup'', description = Some ''consulta de biologo''\<rparr>]\<rparr>"
    by (simp add: list_agents_def register_def constructor_body_def mem0_def trim_samples
          or_empty_def)
  have c: "SPECIALIST_AGENTS_SECRETS no_secrets ''constructor'' = None"
    by (simp add: no_secrets_def)
  have f: "fetchToolsFromRegistry (list_agents_reply (live_world constructor_listing)) empty_host
             = (constructor_snapshot, Discovered 1 1)"
    by (simp add: live_world_def fetch_constructor)
  have u: "agent_base_url constructor_snapshot ''constructor'' = Some ''http://c''"
    by (simp add: agent_base_url_def constructor_snapshot_def)
  have h: "HOST_AGENT_ID no_secrets = ''host-agent''" by (simp add: no_secrets_def)
  have d: "dispatch no_secrets (live_world constructor_listing) constructor_snapshot
             ''biologia marinha'' None
             \<lparr>tool_to_use = Some ''bio-lookup'', dec_owner_agent_id = ''constructor'',
              dec_agent_execute_url = ''http://c/execute''\<rparr>
       = (Response 200 (Routed ''ok'' ''constructor'' (Some ''bio-lookup'') [] None 0),
          [GetHealth ''http://c/health'',
           PostExecute ''http://c/execute''
             \<lparr>message_id = ''msg_0000'', timestamp = ''2026-01-01T00:00:00.000Z'',
              sender_agent_id = ''host-agent'', receiver_agent_id = ''constructor'',
              payload_type = ''text_query'', payload_query = ''biologia marinha'',
              payload_uuid = None\<rparr>
             (Inherited ''constructor'')])"
    by (simp add: dispatch_def Let_def constructor_inherited truthy_def u live_world_def h)
  have e: "post_query no_secrets (live_world constructor_listing) (Some ''biologia marinha'') None empty_host
       = (Response 200 (Routed ''ok'' ''constructor'' (Some ''bio-lookup'') [] None 0),
          [GetListAgents, Log (Discovered 1 1), GetHealth ''http://c/health'',
           PostExecute ''http://c/execute''
             \<lparr>message_id = ''msg_0000'', timestamp = ''2026-01-01T00:00:00.000Z'',
              sender_agent_id = ''host-agent'', receiver_agent_id = ''constructor'',
              payload_type = ''text_query'', payload_query = ''biologia marinha'',
              payload_uuid = None\<rparr>
             (Inherited ''constructor'')],
          constructor_snapshot)"
    unfolding post_query_routed [OF route_constructor f ncap_bio] d by simp
  from a b c e show ?thesis by blast
qed

text \<open>
  C4. When the router chose a tool, its owner has a credential and an entry in the
  snapshot, and the health probe of that agent fails, the handler answers 503; after the
  refresh it makes the probe, one deregistration call for that agent and one log line
  (of the request when the call went through, of its failure otherwise), and no call to
  \<open>/execute\<close>; and the response is the same whatever the outcome of the deregistration
  call. The owner's id is not empty, as for every id the registry lists.
\<close>

theorem C4_unhealthy_agent:
  assumes "heuristicRoute q (discoveredTools (fst (fetchToolsFromRegistry (list_agents_reply w) s))) = Some dec"
    and "\<not> isCapabilitiesQuery q"
    and "\<not> falsy (SPECIALIST_AGENTS_SECRETS cfg (dec_owner_agent_id dec))"
    and "map_of (discoveredAgentsData (fst (fetchToolsFromRegistry (list_agents_reply w) s)))
           (dec_owner_agent_id dec) = Some info"
    and "\<not> health_ok w (base_url info @ ''/health'')"
    and "dec_owner_agent_id dec \<noteq> []"
  shows "fst (post_query cfg w (Some q) uuid s) =
           Response 503 (ErrorBody (''O agente especialista '' @ [CHR 0x27] @ dec_owner_agent_id dec
             @ [CHR 0x27] @ '' esta indisponivel no momento.''))
         \<and> fst (snd (post_query cfg w (Some q) uuid s)) =
             [GetListAgents, Log (snd (fetchToolsFromRegistry (list_agents_reply w) s)),
              GetHealth (base_url info @ ''/health''),
              PostDeregister (dec_owner_agent_id dec),
              Log (case deregister_error w (dec_owner_agent_id dec) of
                     None \<Rightarrow> DeregistrationRequested (dec_owner_agent_id dec)
                   | Some e \<Rightarrow> DeregistrationFailed e)]
         \<and> fst (post_query cfg (w\<lparr>deregister_error := outcome\<rparr>) (Some q) uuid s)
             = fst (post_query cfg w (Some q) uuid s)"
proof -
  obtain s' line where f: "fetchToolsFromRegistry (list_agents_reply w) s = (s', line)"
    by (cases "fetchToolsFromRegistry (list_agents_reply w) s")
  let ?w' = "w\<lparr>deregister_error := outcome\<rparr>"
  have f': "fetchToolsFromRegistry (list_agents_reply ?w') s = (s', line)" using f by simp
  from assms(1) f have r: "heuristicRoute q (discoveredTools s') = Some dec" by simp
  from assms(4) f have i: "map_of (discoveredAgentsData s') (dec_owner_agent_id dec) = Some info"
    by simp
  have h': "\<not> health_ok ?w' (base_url info @ ''/health'')" using assms(5) by simp
  have a: "post_query cfg w (Some q) uuid s =
     (fst (dispatch cfg w s' q uuid dec),
      [GetListAgents, Log line] @ snd (dispatch cfg w s' q uuid dec), s')"
    by (rule post_query_routed [OF r f assms(2)])
  have b: "post_query cfg ?w' (Some q) uuid s =
     (fst (dispatch cfg ?w' s' q uuid dec),
      [GetListAgents, Log line] @ snd (dispatch cfg ?w' s' q uuid dec), s')"
    by (rule post_query_routed [OF r f' assms(2)])
  show ?thesis
    unfolding a b dispatch_unhealthy [OF assms(3) i assms(5) assms(6)]
      dispatch_unhealthy [OF assms(3) i h' assms(6)]
    using f by (simp add: requestDeregistration_def split: option.splits)
qed

text \<open>
  A biology query routed to \<open>bio\<close>, whose health probe fails and whose deregistration
  times out.
\<close>

theorem C4_unhealthy_agent_witness:
  "heuristicRoute ''biologia marinha''
      (discoveredTools (fst (fetchToolsFromRegistry (list_agents_reply (dead_world bio_listing)) empty_host)))
     = Some \<lparr>tool_to_use = Some ''bio-lookup'', dec_owner_agent_id = ''bio'',
             dec_agent_execute_url = ''http://b/execute''\<rparr>
   \<and> SPECIALIST_AGENTS_SECRETS bio_config ''bio'' = Some ''s1''
   \<and> fst (post_query bio_config (dead_world bio_listing) (Some ''biologia marinha'') None empty_host)
       = Response 503 (ErrorBody (''O agente especialista '' @ [CHR 0x27] @ ''bio'' @ [CHR 0x27]
           @ '' esta indisponivel no momento.''))
   \<and> fst (snd (post_query bio_config (dead_world bio_listing) (Some ''biologia marinha'') None empty_host))
       = [GetListAgents, Log (Discovered 1 1), GetHealth ''http://b/health'', PostDeregister ''bio'',
          Log (DeregistrationFailed ''timeout'')]"
proof -
  let ?dec = "\<lparr>tool_to_use = Some ''bio-lookup'', dec_owner_agent_id = ''bio'',
             dec_agent_execute_url = ''http://b/execute''\<rparr>"
  let ?info = "\<lparr>base_url = ''http://b'',
          tools = [\<lparr>name = Some ''bio-lookup'', description = Some ''consulta de biologo''\<rparr>]\<rparr>"
  have f: "fetchToolsFromRegistry (list_agents_reply (dead_world bio_listing)) empty_host
             = (bio_snapshot, Discovered 1 1)"
    by (simp add: dead_world_def fetch_bio)
  have r: "heuristicRoute ''biologia marinha''
      (discoveredTools (fst (fetchToolsFromRegistry (list_agents_reply (dead_world bio_listing)) empty_host)))
     = Some ?dec"
    unfolding f fst_conv by (rule route_bio)
  have k: "SPECIALIST_AGENTS_SECRETS bio_config ''bio'' = Some ''s1''" by (simp add: bio_config_def)
  have c: "\<not> falsy (SPECIALIST_AGENTS_SECRETS bio_config (dec_owner_agent_id ?dec))"
    by (simp add: bio_config_def falsy_def)
  have i: "map_of (discoveredAgentsData (fst (fetchToolsFromRegistry
              (list_agents_reply (dead_world bio_listing)) empty_host))) (dec_owner_agent_id ?dec)
             = Some ?info"
    unfolding f fst_conv by (simp add: bio_snapshot_def)
  have d: "\<not> health_ok (dead_world bio_listing) (base_url ?info @ ''/health'')"
    by (simp add: dead_world_def)
  have o: "dec_owner_agent_id ?dec \<noteq> []" by simp
  have e: "deregister_error (dead_world bio_listing) ''bio'' = Some ''timeout''"
    by (simp add: dead_world_def)
  from C4_unhealthy_agent [OF r ncap_bio c i d o, where uuid = None and outcome = "\<lambda>agentId. None"] f r k e
  show ?thesis by simp
qed

text \<open>
  C7, as stated, fails when the AI keywords match and no tool passes the AI test: the
  query \<open>biologia\<close> contains the AI keyword \<open>ia\<close>, the snapshot holds one biology tool,
  the first matching keyword set alone would give nothing, and the router goes on to the
  biology keywords and returns the biology tool.
\<close>

theorem C7_fall_through_counterexample:
  "list_ex (string_includes (toLowerCase ''biologia'')) aiKw
   \<and> find ai_tool (discoveredTools bio_snapshot) = None
   \<and> route_first_matching_set ''biologia'' (discoveredTools bio_snapshot) = None
   \<and> heuristicRoute ''biologia'' (discoveredTools bio_snapshot)
       = Some \<lparr>tool_to_use = Some ''bio-lookup'', dec_owner_agent_id = ''bio'',
               dec_agent_execute_url = ''http://b/execute''\<rparr>"
  by code_simp

text \<open>
  C7, amended. The router depends on the query and the tools of the snapshot only. It
  tries the AI keywords and then the biology keywords on the lower-cased query; a keyword
  set that matches gives the first tool of the snapshot that passes its test (for AI: the
  name contains \<open>guia\<close> or the description contains \<open>ia\<close>; for biology: the name or the
  description contains \<open>biolog\<close>), and when the AI keywords match but no tool passes the
  AI test, the biology keywords are still tried. Otherwise the result is absent, and the
  handler then answers 200 with its explanation followed by the capabilities listing.
\<close>

theorem C7_router_in_turn:
  "heuristicRoute q tls =
     (if list_ex (string_includes (toLowerCase q)) aiKw \<and> list_ex ai_tool tls
      then map_option decide (find ai_tool tls)
      else if list_ex (string_includes (toLowerCase q)) bioKw \<and> list_ex bio_tool tls
      then map_option decide (find bio_tool tls)
      else None)
   \<and> (heuristicRoute q (discoveredTools (fst (fetchToolsFromRegistry (list_agents_reply w) s))) = None
        \<and> q \<noteq> [] \<and> \<not> isCapabilitiesQuery q
        \<and> discoveredTools (fst (fetchToolsFromRegistry (list_agents_reply w) s)) \<noteq> []
      \<longrightarrow> fst (post_query cfg w (Some q) uuid s) =
            Response 200 (Capabilities
              (explicacao @ fst (formatCapabilitiesResponse (fst (fetchToolsFromRegistry (list_agents_reply w) s))))
              (snd (formatCapabilitiesResponse (fst (fetchToolsFromRegistry (list_agents_reply w) s))))))"
proof
  show "heuristicRoute q tls =
     (if list_ex (string_includes (toLowerCase q)) aiKw \<and> list_ex ai_tool tls
      then map_option decide (find ai_tool tls)
      else if list_ex (string_includes (toLowerCase q)) bioKw \<and> list_ex bio_tool tls
      then map_option decide (find bio_tool tls)
      else None)"
  proof (cases "q = [] \<or> tls = []")
    case True
    then show ?thesis
      using no_keyword_in_empty by (auto simp: heuristicRoute_def)
  next
    case False
    have a: "list_ex ai_tool tls = (find ai_tool tls \<noteq> None)"
      and b: "list_ex bio_tool tls = (find bio_tool tls \<noteq> None)"
      by (simp_all add: find_None_list_ex)
    from False show ?thesis
      unfolding a b
      by (cases "find ai_tool tls"; cases "find bio_tool tls")
         (simp_all add: heuristicRoute_def Let_def)
  qed
next
  obtain s' line where f: "fetchToolsFromRegistry (list_agents_reply w) s = (s', line)"
    by (cases "fetchToolsFromRegistry (list_agents_reply w) s")
  show "heuristicRoute q (discoveredTools (fst (fetchToolsFromRegistry (list_agents_reply w) s))) = None
        \<and> q \<noteq> [] \<and> \<not> isCapabilitiesQuery q
        \<and> discoveredTools (fst (fetchToolsFromRegistry (list_agents_reply w) s)) \<noteq> []
      \<longrightarrow> fst (post_query cfg w (Some q) uuid s) =
            Response 200 (Capabilities
              (explicacao @ fst (formatCapabilitiesResponse (fst (fetchToolsFromRegistry (list_agents_reply w) s))))
              (snd (formatCapabilitiesResponse (fst (fetchToolsFromRegistry (list_agents_reply w) s)))))"
    unfolding f fst_conv
    using post_query_unrouted [OF _ f, of q cfg uuid] by simp
qed

text \<open>
  A biology query (which also contains the AI keyword \<open>ia\<close>) and a query that no keyword
  set matches.
\<close>

theorem C7_router_witness:
  "heuristicRoute ''biologia marinha'' (discoveredTools bio_snapshot)
     = Some \<lparr>tool_to_use = Some ''bio-lookup'', dec_owner_agent_id = ''bio'',
             dec_agent_execute_url = ''http://b/execute''\<rparr>
   \<and> heuristicRoute ''qual a capital da franca'' (discoveredTools bio_snapshot) = None
   \<and> fst (post_query bio_config (dead_world bio_listing) (Some ''qual a capital da franca'') None empty_host)
       = Response 200 (Capabilities (explicacao @ fst (formatCapabilitiesResponse bio_snapshot))
           (snd (formatCapabilitiesResponse bio_snapshot)))"
proof -
  have f: "fst (fetchToolsFromRegistry (list_agents_reply (dead_world bio_listing)) empty_host)
             = bio_snapshot"
    by (simp add: dead_world_def fetch_bio)
  have k1: "list_ex (string_includes (toLowerCase ''biologia marinha'')) aiKw" by code_simp
  have k2: "\<not> list_ex ai_tool (discoveredTools bio_snapshot)" by code_simp
  have k3: "list_ex (string_includes (toLowerCase ''biologia marinha'')) bioKw" by code_simp
  have k4: "list_ex bio_tool (discoveredTools bio_snapshot)" by code_simp
  have k5: "map_option decide (find bio_tool (discoveredTools bio_snapshot))
              = Some \<lparr>tool_to_use = Some ''bio-lookup'', dec_owner_agent_id = ''bio'',
                      dec_agent_execute_url = ''http://b/execute''\<rparr>" by code_simp
  have n1: "\<not> list_ex (string_includes (toLowerCase ''qual a capital da franca'')) aiKw" by code_simp
  have n2: "\<not> list_ex (string_includes (toLowerCase ''qual a capital da franca'')) bioKw" by code_simp
  have n3: "\<not> isCapabilitiesQuery ''qual a capital da franca''" by code_simp
  have t: "discoveredTools bio_snapshot \<noteq> []" by (simp add: bio_snapshot_def)
  have a: "heuristicRoute ''biologia marinha'' (discoveredTools bio_snapshot)
     = Some \<lparr>tool_to_use = Some ''bio-lookup'', dec_owner_agent_id = ''bio'',
             dec_agent_execute_url = ''http://b/execute''\<rparr>"
    using C7_router_in_turn [THEN conjunct1, of "''biologia marinha''" "discoveredTools bio_snapshot"]
      k1 k2 k3 k4 k5 by simp
  have b: "heuristicRoute ''qual a capital da franca'' (discoveredTools bio_snapshot) = None"
    using C7_router_in_turn [THEN conjunct1, of "''qual a capital da franca''" "discoveredTools bio_snapshot"]
      n1 n2 by simp
  have c: "fst (post_query bio_config (dead_world bio_listing) (Some ''qual a capital da franca'') None empty_host)
       = Response 200 (Capabilities (explicacao @ fst (formatCapabilitiesResponse bio_snapshot))
           (snd (formatCapabilitiesResponse bio_snapshot)))"
    using C7_router_in_turn [THEN conjunct2, of "''qual a capital da franca''" "dead_world bio_listing"
        empty_host bio_config None, unfolded f] b n3 t
    by simp
  from a b c show ?thesis by blast
qed

section \<open>The specialist: anchoring\<close>

text \<open>
  Values of the arithmetic, and the scores of three one-letter texts against the documents
  \<open>x\<close> and \<open>y\<close>. The first document is encoded with the dimension 0 and gives the empty
  vector, whose similarity to anything is 0; the second is encoded with the dimension 1.
  The letters \<open>a\<close> and \<open>k\<close> have the codes 97 and 107, which agree modulo 10.
\<close>

lemma fl_0: "fl 0 = 0" by (simp add: fl_def)

lemma fl_values: "fl 1 = 1" "fl 7 = 7" "fl 49 = 49"
  by code_simp+

lemma fl_sqrt_values: "fl_sqrt 0 = 0" "fl_sqrt 1 = 1" "fl_sqrt 49 = 7"
  by code_simp+

lemma threshold_bounds: "0 < fl (35 / 100)" "fl (35 / 100) \<le> 1"
  by code_simp+

lemma temps_increase:
  "fl (3 / 10) < fl (6 / 10)" "fl (6 / 10) < fl (9 / 10)" "fl (3 / 10) < fl (9 / 10)"
  by code_simp+

lemma utf16_samples:
  "utf16 ''a'' = [97]" "utf16 ''k'' = [107]" "utf16 ''d'' = [100]"
  "utf16 ''x'' = [120]" "utf16 ''y'' = [121]"
  by code_simp+

lemma sum_squares_zeros: "fl s = s \<Longrightarrow> sum_squares (replicate n 0) s = s"
  by (induction n) (simp_all add: fl_0)

lemma replicate_128: "replicate 128 (0 :: rat) = 0 # replicate 127 0"
  by (simp add: numeral_eq_Suc)

lemma encode_text:
  "encodeToVector ''a'' 128 = 7 # replicate 127 0"
  "encodeToVector ''k'' 128 = 7 # replicate 127 0"
  "encodeToVector ''d'' 128 = 0 # replicate 127 0"
  by (simp_all add: encodeToVector_def utf16_samples replicate_128 fl_values fl_0)

lemma encode_docs:
  "encodeToVector ''x'' 0 = []" "encodeToVector ''y'' (Suc 0) = [1]"
  by (simp_all add: encodeToVector_def utf16_samples fl_values)

lemma cosine_empty: "cosineSimilarity [] b = 0"
  by (simp add: cosineSimilarity_def Let_def fl_0)

lemma cosine_7: "cosineSimilarity [1] (7 # replicate 127 0) = 1"
  by (simp add: cosineSimilarity_def Let_def fl_0 fl_values fl_sqrt_values sum_squares_zeros
        or_one_def)

lemma cosine_0: "cosineSimilarity [1] (0 # replicate 127 0) = 0"
  by (simp add: cosineSimilarity_def Let_def fl_0 fl_values fl_sqrt_values sum_squares_zeros
        or_one_def)

lemma score_samples:
  "calcularSimilaridadeMaxima ''a'' [''x'', ''y''] = 1"
  "calcularSimilaridadeMaxima ''k'' [''x'', ''y''] = 1"
  "calcularSimilaridadeMaxima ''d'' [''x'', ''y''] = 0"
  by (simp_all add: calcularSimilaridadeMaxima_def Let_def enumerate_simps encode_text encode_docs
        cosine_empty cosine_7 cosine_0)

lemma generate_tie:
  "generate tie_world ''<RAG>ctx</RAG>'' ''q'' [''x'', ''y''] 0 temps =
     [\<lparr>c_text = ''a'', isAnchor = True, score = 1, temp = fl (3 / 10)\<rparr>,
      \<lparr>c_text = ''k'', isAnchor = True, score = 1, temp = fl (6 / 10)\<rparr>,
      \<lparr>c_text = ''d'', isAnchor = False, score = 0, temp = fl (9 / 10)\<rparr>]"
  using threshold_bounds by (simp add: temps_def tie_world_def score_samples Let_def)

text \<open>
  With one document only, every text has the score 0: the document is encoded with its
  index, 0, as dimension.
\<close>

lemma encode_from_0: "encode_from 0 i us vec = vec"
  by (induction us arbitrary: i) simp_all

lemma single_document_scores_zero: "calcularSimilaridadeMaxima txt [d] = 0"
  by (simp add: calcularSimilaridadeMaxima_def Let_def enumerate_simps encodeToVector_def
        encode_from_0 cosine_empty)

text \<open>
  The candidates of a request and the selection among them.
\<close>

lemma fontes_tie: "fontesLine [''docs/guia.pdf''] = ''Fontes: guia.pdf''"
  by (simp add: fontesLine_def last_segment_def Let_def)

lemma generate_member:
  "c \<in> set (generate w ctx q docs i ts) \<Longrightarrow>
   isAnchor c = (fl (35 / 100) \<le> score c)
   \<and> score c = calcularSimilaridadeMaxima (c_text c) docs
   \<and> temp c \<in> set ts"
  by (induction ts arbitrary: i) (auto simp: Let_def split: option.splits)

lemma generate_sorted:
  "sorted_wrt (<) ts \<Longrightarrow> sorted_wrt (\<lambda>c d. temp c < temp d) (generate w ctx q docs i ts)"
proof (induction ts arbitrary: i)
  case Nil
  then show ?case by simp
next
  case (Cons t ts)
  have later: "\<forall>c \<in> set (generate w ctx q docs (Suc i) ts). t < temp c"
    using Cons.prems generate_member [of _ w ctx q docs "Suc i" ts] by auto
  show ?case
    using Cons later by (auto simp: Let_def split: option.splits)
qed

lemma temps_sorted: "sorted_wrt (<) temps"
  using temps_increase by (simp add: temps_def)

lemma foldl_better:
  "sorted_wrt (\<lambda>c d. temp c < temp d) (a # xs) \<Longrightarrow>
   foldl better a xs \<in> set (a # xs)
   \<and> (\<forall>c \<in> set (a # xs). score c \<le> score (foldl better a xs))
   \<and> (\<forall>c \<in> set (a # xs). score c = score (foldl better a xs) \<longrightarrow> temp c \<le> temp (foldl better a xs))"
proof (induction xs rule: rev_induct)
  case Nil
  then show ?case by simp
next
  case (snoc x xs)
  let ?b = "foldl better a xs"
  have s: "sorted_wrt (\<lambda>c d. temp c < temp d) (a # xs)"
    and lt: "\<forall>c \<in> set (a # xs). temp c < temp x"
    using snoc.prems by (auto simp: sorted_wrt_append)
  note ih = snoc.IH [OF s]
  show ?case
  proof (cases "score ?b > score x")
    case True
    then have "foldl better a (xs @ [x]) = ?b" by (simp add: better_def)
    then show ?thesis using ih True by auto
  next
    case False
    then have e: "foldl better a (xs @ [x]) = x" by (simp add: better_def)
    have "\<forall>c \<in> set (a # xs). score c \<le> score x" using ih False by force
    then show ?thesis unfolding e using lt by force
  qed
qed

lemma select_none:
  "\<not> (\<exists>c \<in> set cs. isAnchor c) \<Longrightarrow> select cs = (respostaPadrao, None, 0)"
  by (simp add: select_def filter_empty_conv split: list.splits)

lemma select_some:
  assumes "sorted_wrt (\<lambda>c d. temp c < temp d) cs" and "\<exists>c \<in> set cs. isAnchor c"
  shows "\<exists>best \<in> set cs. isAnchor best
           \<and> (\<forall>c \<in> set cs. isAnchor c \<longrightarrow>
                 score c \<le> score best \<and> (score c = score best \<longrightarrow> temp c \<le> temp best))
           \<and> select cs = (c_text best, Some (temp best), score best)"
proof -
  from assms(2) obtain a anchored where f: "filter isAnchor cs = a # anchored"
    by (cases "filter isAnchor cs") (auto simp: filter_empty_conv)
  have "sorted_wrt (\<lambda>c d. temp c < temp d) (filter isAnchor cs)"
    using assms(1) by (rule sorted_wrt_filter)
  then have p: "foldl better a anchored \<in> set (a # anchored)
      \<and> (\<forall>c \<in> set (a # anchored). score c \<le> score (foldl better a anchored))
      \<and> (\<forall>c \<in> set (a # anchored). score c = score (foldl better a anchored)
            \<longrightarrow> temp c \<le> temp (foldl better a anchored))"
    unfolding f by (rule foldl_better)
  have m: "set (a # anchored) = {c \<in> set cs. isAnchor c}"
    using f by (metis set_filter)
  have "select cs = (c_text (foldl better a anchored), Some (temp (foldl better a anchored)),
                     score (foldl better a anchored))"
    by (simp add: select_def f Let_def)
  then show ?thesis using p unfolding m by blast
qed

lemma generate_no_docs:
  "c \<in> set (generate w ctx q [] i ts) \<Longrightarrow> score c = 0 \<and> \<not> isAnchor c"
  using threshold_bounds(1)
  by (induction ts arbitrary: i)
     (auto simp: Let_def calcularSimilaridadeMaxima_def split: option.splits)

text \<open>
  C1, as stated, fails on a tie. The documents are \<open>x\<close> and \<open>y\<close>; the model answers
  \<open>a\<close> at 0.3, \<open>k\<close> at 0.6 and \<open>d\<close> at 0.9. The first two candidates have the score 1
  and are anchored, the third has the score 0. The earliest candidate of the highest score
  is the one of 0.3, and the agent answers with the one of 0.6.
\<close>

theorem C1_tie_counterexample:
  "map score (generate tie_world ''<RAG>ctx</RAG>'' ''q'' [''x'', ''y''] 0 temps) = [1, 1, 0]
   \<and> earliest_highest (generate tie_world ''<RAG>ctx</RAG>'' ''q'' [''x'', ''y''] 0 temps)
     = Some \<lparr>c_text = ''a'', isAnchor = True, score = 1, temp = fl (3 / 10)\<rparr>
   \<and> post_execute ''secret'' tie_world (Some ''Bearer secret'') (Some ''q'')
     = Response 200 (Executed
         \<lparr>answer = ''k'' @ [CHR 0x0A, CHR 0x0A] @ ''Fontes: guia.pdf'',
          result = ''k'' @ [CHR 0x0A, CHR 0x0A] @ ''Fontes: guia.pdf'',
          sources = [''docs/guia.pdf''], chosen_temperature = Some (fl (6 / 10)), similarity = 1\<rparr>)"
proof -
  have r: "retrieveAndFormat tie_world ''q''
             = Retrieved ''<RAG>ctx</RAG>'' [''docs/guia.pdf''] [''x'', ''y'']"
    by (simp add: tie_world_def)
  have s: "map score (generate tie_world ''<RAG>ctx</RAG>'' ''q'' [''x'', ''y''] 0 temps) = [1, 1, 0]"
    unfolding generate_tie by simp
  have a: "earliest_highest (generate tie_world ''<RAG>ctx</RAG>'' ''q'' [''x'', ''y''] 0 temps)
     = Some \<lparr>c_text = ''a'', isAnchor = True, score = 1, temp = fl (3 / 10)\<rparr>"
    unfolding generate_tie by (simp add: earliest_highest_def)
  have b: "post_execute ''secret'' tie_world (Some ''Bearer secret'') (Some ''q'')
     = Response 200 (Executed
         \<lparr>answer = ''k'' @ [CHR 0x0A, CHR 0x0A] @ ''Fontes: guia.pdf'',
          result = ''k'' @ [CHR 0x0A, CHR 0x0A] @ ''Fontes: guia.pdf'',
          sources = [''docs/guia.pdf''], chosen_temperature = Some (fl (6 / 10)), similarity = 1\<rparr>)"
    by (simp add: post_execute_def falsy_def or_empty_def r generate_tie select_def better_def
          fontes_tie Let_def)
  from s a b show ?thesis by blast
qed

text \<open>
  C1, amended. On an authorised request with a query, once retrieval has returned, a
  candidate is anchored exactly when its score against the raw documents is at least
  0.35 (the double). If a candidate is anchored, the answer is the text of an anchored
  candidate whose score no anchored candidate exceeds, followed by the sources line, and
  among the anchored candidates of that score it is the one of the latest temperature. If
  none is anchored, the answer is the fixed refusal followed by the sources line.
\<close>

theorem C1_anchored_answer:
  assumes "auth = Some (''Bearer '' @ token)"
    and "\<not> falsy body_query"
    and "retrieveAndFormat w (or_empty body_query) = Retrieved ragContext sourceNames rawDocs"
  shows "(let cs = generate w ragContext (or_empty body_query) rawDocs 0 temps;
              reply = (\<lambda>chosen bestTemp bestScore.
                 Response 200 (Executed
                   \<lparr>answer = chosen @ [CHR 0x0A, CHR 0x0A] @ fontesLine sourceNames,
                    result = chosen @ [CHR 0x0A, CHR 0x0A] @ fontesLine sourceNames,
                    sources = sourceNames, chosen_temperature = bestTemp,
                    similarity = bestScore\<rparr>))
          in (\<forall>c \<in> set cs.
                 isAnchor c = (fl (35 / 100) \<le> score c)
                 \<and> score c = calcularSimilaridadeMaxima (c_text c) rawDocs)
             \<and> (if \<exists>c \<in> set cs. isAnchor c
                 then \<exists>best \<in> set cs. isAnchor best
                        \<and> (\<forall>c \<in> set cs. isAnchor c \<longrightarrow>
                              score c \<le> score best
                              \<and> (score c = score best \<longrightarrow> temp c \<le> temp best))
                        \<and> post_execute token w auth body_query
                            = reply (c_text best) (Some (temp best)) (score best)
                 else post_execute token w auth body_query = reply respostaPadrao None 0))"
proof -
  let ?cs = "generate w ragContext (or_empty body_query) rawDocs 0 temps"
  have ex: "post_execute token w auth body_query =
      (case select ?cs of
         (chosen, bestTemp, bestScore) \<Rightarrow>
           Response 200 (Executed
             \<lparr>answer = chosen @ [CHR 0x0A, CHR 0x0A] @ fontesLine sourceNames,
              result = chosen @ [CHR 0x0A, CHR 0x0A] @ fontesLine sourceNames,
              sources = sourceNames, chosen_temperature = bestTemp, similarity = bestScore\<rparr>))"
    using assms by (simp add: post_execute_def falsy_def Let_def)
  have mem: "\<forall>c \<in> set ?cs.
                 isAnchor c = (fl (35 / 100) \<le> score c)
                 \<and> score c = calcularSimilaridadeMaxima (c_text c) rawDocs"
    using generate_member by blast
  have srt: "sorted_wrt (\<lambda>c d. temp c < temp d) ?cs"
    using temps_sorted by (rule generate_sorted)
  show ?thesis
  proof (cases "\<exists>c \<in> set ?cs. isAnchor c")
    case True
    from select_some [OF srt True] obtain best where
      b: "best \<in> set ?cs" "isAnchor best"
         "\<forall>c \<in> set ?cs. isAnchor c \<longrightarrow>
             score c \<le> score best \<and> (score c = score best \<longrightarrow> temp c \<le> temp best)"
         "select ?cs = (c_text best, Some (temp best), score best)"
      by blast
    have "post_execute token w auth body_query =
            Response 200 (Executed
             \<lparr>answer = c_text best @ [CHR 0x0A, CHR 0x0A] @ fontesLine sourceNames,
              result = c_text best @ [CHR 0x0A, CHR 0x0A] @ fontesLine sourceNames,
              sources = sourceNames, chosen_temperature = Some (temp best),
              similarity = score best\<rparr>)"
      unfolding ex b(4) by simp
    with b(1,2,3) mem True show ?thesis unfolding Let_def by auto
  next
    case False
    have "post_execute token w auth body_query =
            Response 200 (Executed
             \<lparr>answer = respostaPadrao @ [CHR 0x0A, CHR 0x0A] @ fontesLine sourceNames,
              result = respostaPadrao @ [CHR 0x0A, CHR 0x0A] @ fontesLine sourceNames,
              sources = sourceNames, chosen_temperature = None, similarity = 0\<rparr>)"
      unfolding ex select_none [OF False] by simp
    with mem False show ?thesis unfolding Let_def by auto
  qed
qed

text \<open>
  Three candidates with the scores 1, 1 and 0: the second one is returned.
\<close>

theorem C1_anchored_answer_witness:
  "retrieveAndFormat tie_world ''q'' = Retrieved ''<RAG>ctx</RAG>'' [''docs/guia.pdf''] [''x'', ''y'']
   \<and> map score (generate tie_world ''<RAG>ctx</RAG>'' ''q'' [''x'', ''y''] 0 temps) = [1, 1, 0]
   \<and> map isAnchor (generate tie_world ''<RAG>ctx</RAG>'' ''q'' [''x'', ''y''] 0 temps)
       = [True, True, False]
   \<and> post_execute ''secret'' tie_world (Some ''Bearer secret'') (Some ''q'')
     = Response 200 (Executed
         \<lparr>answer = ''k'' @ [CHR 0x0A, CHR 0x0A] @ ''Fontes: guia.pdf'',
          result = ''k'' @ [CHR 0x0A, CHR 0x0A] @ ''Fontes: guia.pdf'',
          sources = [''docs/guia.pdf''], chosen_temperature = Some (fl (6 / 10)), similarity = 1\<rparr>)"
proof -
  let ?A = "\<lparr>c_text = ''a'', isAnchor = True, score = 1, temp = fl (3 / 10)\<rparr>"
  let ?B = "\<lparr>c_text = ''k'', isAnchor = True, score = 1, temp = fl (6 / 10)\<rparr>"
  let ?C = "\<lparr>c_text = ''d'', isAnchor = False, score = 0, temp = fl (9 / 10)\<rparr>"
  have a: "Some ''Bearer secret'' = Some (''Bearer '' @ ''secret'')" by simp
  have q: "\<not> falsy (Some ''q'')" by (simp add: falsy_def)
  have r: "retrieveAndFormat tie_world (or_empty (Some ''q''))
             = Retrieved ''<RAG>ctx</RAG>'' [''docs/guia.pdf''] [''x'', ''y'']"
    by (simp add: tie_world_def)
  have o: "or_empty (Some ''q'') = ''q''" by (simp add: or_empty_def)
  have ex: "\<exists>c \<in> set [?A, ?B, ?C]. isAnchor c" by simp
  note th = C1_anchored_answer [OF a q r, unfolded Let_def o generate_tie fontes_tie,
      THEN conjunct2, unfolded if_P [OF ex]]
  then obtain best where
    b1: "best \<in> set [?A, ?B, ?C]" and b2: "isAnchor best"
    and b3: "\<forall>c \<in> set [?A, ?B, ?C]. isAnchor c \<longrightarrow>
           score c \<le> score best \<and> (score c = score best \<longrightarrow> temp c \<le> temp best)"
    and b4: "post_execute ''secret'' tie_world (Some ''Bearer secret'') (Some ''q'')
          = Response 200 (Executed
              \<lparr>answer = c_text best @ [CHR 0x0A, CHR 0x0A] @ ''Fontes: guia.pdf'',
               result = c_text best @ [CHR 0x0A, CHR 0x0A] @ ''Fontes: guia.pdf'',
               sources = [''docs/guia.pdf''], chosen_temperature = Some (temp best),
               similarity = score best\<rparr>)"
    by blast
  from b1 have "best = ?A \<or> best = ?B \<or> best = ?C" by simp
  moreover have "best \<noteq> ?C" using b2 by auto
  moreover have "best \<noteq> ?A"
  proof
    assume e: "best = ?A"
    from b3 have "isAnchor ?B \<longrightarrow> score ?B \<le> score best \<and> (score ?B = score best \<longrightarrow> temp ?B \<le> temp best)"
      by simp
    then show False unfolding e using temps_increase(1) by simp
  qed
  ultimately have e: "best = ?B" by blast
  have p: "post_execute ''secret'' tie_world (Some ''Bearer secret'') (Some ''q'')
     = Response 200 (Executed
         \<lparr>answer = ''k'' @ [CHR 0x0A, CHR 0x0A] @ ''Fontes: guia.pdf'',
          result = ''k'' @ [CHR 0x0A, CHR 0x0A] @ ''Fontes: guia.pdf'',
          sources = [''docs/guia.pdf''], chosen_temperature = Some (fl (6 / 10)), similarity = 1\<rparr>)"
    using b4 unfolding e by simp
  have r': "retrieveAndFormat tie_world ''q''
              = Retrieved ''<RAG>ctx</RAG>'' [''docs/guia.pdf''] [''x'', ''y'']"
    using r unfolding o .
  have g1: "map score (generate tie_world ''<RAG>ctx</RAG>'' ''q'' [''x'', ''y''] 0 temps) = [1, 1, 0]"
    unfolding generate_tie by simp
  have g2: "map isAnchor (generate tie_world ''<RAG>ctx</RAG>'' ''q'' [''x'', ''y''] 0 temps)
              = [True, True, False]"
    unfolding generate_tie by simp
  from r' g1 g2 p show ?thesis by blast
qed

text \<open>
  C10. On an authorised request with a query, when retrieval returns no document, every
  candidate has the score 0 and is not anchored, and the response is 200 with the fixed
  refusal followed by the sources line as answer, no temperature and the similarity 0.
\<close>

theorem C10_no_documents:
  assumes "auth = Some (''Bearer '' @ token)"
    and "\<not> falsy body_query"
    and "retrieveAndFormat w (or_empty body_query) = Retrieved ragContext sourceNames []"
  shows "(\<forall>c \<in> set (generate w ragContext (or_empty body_query) [] 0 temps).
            score c = 0 \<and> \<not> isAnchor c)
         \<and> post_execute token w auth body_query =
             Response 200 (Executed
               \<lparr>answer = respostaPadrao @ [CHR 0x0A, CHR 0x0A] @ fontesLine sourceNames,
                result = respostaPadrao @ [CHR 0x0A, CHR 0x0A] @ fontesLine sourceNames,
                sources = sourceNames, chosen_temperature = None, similarity = 0\<rparr>)"
proof -
  let ?cs = "generate w ragContext (or_empty body_query) [] 0 temps"
  have n: "\<forall>c \<in> set ?cs. score c = 0 \<and> \<not> isAnchor c"
    using generate_no_docs by blast
  then have "\<not> (\<exists>c \<in> set ?cs. isAnchor c)" by blast
  then have "select ?cs = (respostaPadrao, None, 0)" by (rule select_none)
  then have "post_execute token w auth body_query =
             Response 200 (Executed
               \<lparr>answer = respostaPadrao @ [CHR 0x0A, CHR 0x0A] @ fontesLine sourceNames,
                result = respostaPadrao @ [CHR 0x0A, CHR 0x0A] @ fontesLine sourceNames,
                sources = sourceNames, chosen_temperature = None, similarity = 0\<rparr>)"
    using assms by (simp add: post_execute_def falsy_def Let_def)
  with n show ?thesis by blast
qed

text \<open>
  No document, a model that fails at the second temperature and answers fluently at the
  two others.
\<close>

theorem C10_no_documents_witness:
  "retrieveAndFormat no_docs_world ''o que e IA?''
     = Retrieved ''<RAG>Nenhum contexto encontrado.</RAG>'' [] []
   \<and> map c_text (generate no_docs_world ''<RAG>Nenhum contexto encontrado.</RAG>'' ''o que e IA?'' [] 0 temps)
       = [''fluent text'', ''fluent text'']
   \<and> post_execute ''secret'' no_docs_world (Some ''Bearer secret'') (Some ''o que e IA?'')
       = Response 200 (Executed
           \<lparr>answer = respostaPadrao @ [CHR 0x0A, CHR 0x0A] @ ''Fontes: -'',
            result = respostaPadrao @ [CHR 0x0A, CHR 0x0A] @ ''Fontes: -'',
            sources = [], chosen_temperature = None, similarity = 0\<rparr>)"
proof -
  have a: "Some ''Bearer secret'' = Some (''Bearer '' @ ''secret'')" by simp
  have q: "\<not> falsy (Some ''o que e IA?'')" by (simp add: falsy_def)
  have r: "retrieveAndFormat no_docs_world (or_empty (Some ''o que e IA?''))
             = Retrieved ''<RAG>Nenhum contexto encontrado.</RAG>'' [] []"
    by (simp add: no_docs_world_def)
  have g: "map c_text (generate no_docs_world ''<RAG>Nenhum contexto encontrado.</RAG>''
             ''o que e IA?'' [] 0 temps) = [''fluent text'', ''fluent text'']"
    by (simp add: no_docs_world_def temps_def calcularSimilaridadeMaxima_def Let_def)
  have f: "fontesLine [] = ''Fontes: -''" by (simp add: fontesLine_def)
  from C10_no_documents [OF a q r] r g f show ?thesis by (simp add: or_empty_def)
qed

end
